theory Spec2Isabelle
  imports Main
begin

section \<open>The DNS resolver of serverless-dns (src/dns-operation/dnsResolver.js)\<close>

text \<open>
  A shallow embedding of the class \<open>DNSResolver\<close>: the cache-key and expiry policy, the
  TTL and query-id rewriter, the two cache tiers and the resolution orchestrator.

  JavaScript values are typed as follows. Times are milliseconds since the epoch and
  TTLs are seconds, both integers (\<open>int\<close>). A property that may be missing
  (\<open>undefined\<close>) or \<open>null\<close> is an \<open>option\<close>. A function that returns an object or a
  falsy value (\<open>false\<close>, \<open>null\<close>) returns an \<open>option\<close>, \<open>None\<close> being the falsy value.
  A byte buffer is a list of bytes, one \<open>nat\<close> per byte. A string is a list of 8-bit
  code units.
\<close>

subsection \<open>Data model\<close>

type_synonym bytes = "nat list"

text \<open>One entry of \<open>packet.questions\<close>: the fields \<open>name\<close> and \<open>type\<close>.\<close>

record question =
  name :: string
  qtype :: string

text \<open>
  One entry of \<open>packet.answers\<close>: the fields \<open>type\<close> and \<open>ttl\<close>. The pseudo record
  OPT carries no \<open>ttl\<close>, so the field is optional.
\<close>

record answer =
  atype :: string
  ttl :: "int option"

text \<open>The decoded DNS packet: \<open>id\<close>, \<open>rcode\<close>, \<open>questions\<close>, \<open>answers\<close>.\<close>

record packet =
  pkt_id :: int
  rcode :: string
  questions :: "question list"
  answers :: "answer list"

text \<open>
  The value stored in the local cache (\<open>nv\<close> in \<open>updateLocalCacheIfNeeded\<close>), and the
  cache response built by \<open>makeCacheResponse\<close>, which has the decoded packet as well.
\<close>

record local_entry =
  dnsPacket :: bytes
  ttlEndTime :: "int option"

record cacheRes = local_entry +
  decodedDnsPacket :: packet

text \<open>The constants at the head of the file.\<close>

definition ttlGraceSec :: int where
  "ttlGraceSec = 30"

definition dnsCacheSize :: nat where
  "dnsCacheSize = 10000"

definition httpCacheTtl :: nat where
  "httpCacheTtl = 604800"

subsection \<open>The clock\<close>

text \<open>
  \<open>Date.now()\<close> reads the environment. The world holds the successive readings of the
  clock, \<open>clock w k\<close> being what the \<open>k\<close>-th call returns, and the number of calls made so
  far. The world also holds the two cache tiers and the tasks handed to
  \<open>event.waitUntil\<close>; they are declared below.
\<close>

record metadata =
  meta_ttlEndTime :: "int option"
  meta_bodyUsed :: bool
  meta_blocklistInfo :: "(string \<times> string) list"

text \<open>
  A response held by the edge cache: its body and the parsed \<open>x-rethink-metadata\<close>
  header (\<open>None\<close> when the header is missing or does not parse to an object).
\<close>

record http_response =
  body :: bytes
  x_rethink_metadata :: "metadata option"

record world =
  clock :: "nat \<Rightarrow> int"
  ticks :: nat
  dnsResCache :: "string \<rightharpoonup> local_entry"
  httpCache :: "(string \<rightharpoonup> http_response) option"
  waitUntil :: "(string \<times> http_response) list"

definition now_of :: "world \<Rightarrow> int" where
  "now_of w = clock w (ticks w)"

definition tick :: "world \<Rightarrow> world" where
  "tick w = w\<lparr>ticks := Suc (ticks w)\<rparr>"

definition Date_now :: "world \<Rightarrow> int \<times> world" where
  "Date_now w = (now_of w, tick w)"

subsection \<open>Helpers of dnsutil\<close>

text \<open>
  Modelled from the spec: \<open>dnsutil.rcodeNoError\<close> (helpers/dnsutil.js, a file outside
  dnsResolver.js). It holds when the response code of the packet is "no error".
\<close>

definition rcodeNoError :: "packet \<Rightarrow> bool" where
  "rcodeNoError p = (rcode p = ''NOERROR'')"

text \<open>
  Modelled from the spec: \<open>dnsutil.hasAnswers\<close> (helpers/dnsutil.js). It holds when the
  packet has at least one answer.
\<close>

definition hasAnswers :: "packet \<Rightarrow> bool" where
  "hasAnswers p = (answers p \<noteq> [])"

text \<open>
  Modelled from the spec: \<open>dnsutil.optAnswer\<close> (helpers/dnsutil.js). It holds for the
  pseudo record, the one of type OPT.
\<close>

definition optAnswer :: "answer \<Rightarrow> bool" where
  "optAnswer a = (atype a = ''OPT'')"

text \<open>
  Modelled from the spec: \<open>dnsutil.validResponseSize\<close> (helpers/dnsutil.js). An answer is
  refused when it is smaller than the minimum valid DNS message size; the minimum is a
  constant of dnsutil and a parameter here.
\<close>

definition validResponseSize :: "nat \<Rightarrow> bytes \<Rightarrow> bool" where
  "validResponseSize minDNSPacketSize r = (minDNSPacketSize \<le> length r)"

subsection \<open>Cache key and expiry policy\<close>

text \<open>
  The loop of \<open>determineCacheExpiry\<close>:
  \<^verbatim>\<open>for (let a of answers) minttl = Math.min(a.ttl || minttl, minttl)\<close>.
  The operand \<open>a.ttl || minttl\<close> is \<open>minttl\<close> when \<open>a.ttl\<close> is falsy, that is missing
  or zero.
\<close>

definition ttl_or :: "answer \<Rightarrow> int \<Rightarrow> int" where
  "ttl_or a minttl = (case ttl a of None \<Rightarrow> minttl | Some t \<Rightarrow> if t = 0 then minttl else t)"

fun minttl_loop :: "answer list \<Rightarrow> int \<Rightarrow> int" where
  "minttl_loop [] minttl = minttl"
| "minttl_loop (a # as) minttl = minttl_loop as (min (ttl_or a minttl) minttl)"

text \<open>\<open>1 << 30\<close>, "some abnormally high ttl".\<close>

definition highTtl :: int where
  "highTtl = 1073741824"

definition determineCacheExpiry :: "packet \<Rightarrow> world \<Rightarrow> int \<times> world" where
  "determineCacheExpiry decoded w =
     (let expiresImmediately = 0 in
      if \<not> rcodeNoError decoded then (expiresImmediately, w)
      else if \<not> hasAnswers decoded then (expiresImmediately, w)
      else
        let minttl = minttl_loop (answers decoded) highTtl in
        if minttl = highTtl then (expiresImmediately, w)
        else
          let minttl' = max (minttl + ttlGraceSec) ttlGraceSec;
              (now, w') = Date_now w
          in (now + minttl' * 1000, w'))"

text \<open>
  \<open>String.prototype.trim\<close> and \<open>toLowerCase\<close> on 8-bit code units: the white space is
  TAB, LF, VT, FF, CR, SPACE and NBSP; the upper-case letters are A to Z and the
  Latin-1 capitals (0xC0 to 0xDE without the multiplication sign 0xD7).
\<close>

definition isSpace :: "char \<Rightarrow> bool" where
  "isSpace c = (of_char c \<in> {9, 10, 11, 12, 13, 32, 160 :: nat})"

definition trim :: "string \<Rightarrow> string" where
  "trim s = rev (dropWhile isSpace (rev (dropWhile isSpace s)))"

definition lowerChar :: "char \<Rightarrow> char" where
  "lowerChar c =
     (let n = of_char c :: nat in
      if 65 \<le> n \<and> n \<le> 90 then char_of (n + 32)
      else if 192 \<le> n \<and> n \<le> 222 then (if n = 215 then c else char_of (n + 32))
      else c)"

definition toLowerCase :: "string \<Rightarrow> string" where
  "toLowerCase s = map lowerChar s"

text \<open>\<open>cacheKey\<close>: \<open>None\<close> is the \<open>null\<close> of the source.\<close>

definition cacheKey :: "packet \<Rightarrow> string option" where
  "cacheKey p =
     (if length (questions p) \<noteq> 1 then None
      else
        let name' = toLowerCase (trim (name (questions p ! 0)));
            type' = qtype (questions p ! 0)
        in Some (name' @ '':'' @ type'))"

subsection \<open>TTL and query-id rewriter\<close>

text \<open>
  The loop of \<open>updateTtl\<close> over the answers, with the flag \<open>updated\<close> carried along. The
  source changes the records in place; the model returns the new list.
\<close>

fun updateTtl_loop :: "int \<Rightarrow> answer list \<Rightarrow> bool \<Rightarrow> bool \<times> answer list" where
  "updateTtl_loop outttl [] updated = (updated, [])"
| "updateTtl_loop outttl (a # as) updated =
     (if optAnswer a then
        (let (u, as') = updateTtl_loop outttl as updated in (u, a # as'))
      else if ttl a = Some outttl then
        (let (u, as') = updateTtl_loop outttl as updated in (u, a # as'))
      else
        (let (u, as') = updateTtl_loop outttl as True in (u, a\<lparr>ttl := Some outttl\<rparr> # as')))"

definition updateTtl :: "packet \<Rightarrow> int \<Rightarrow> world \<Rightarrow> (bool \<times> packet) \<times> world" where
  "updateTtl decoded end' w =
     (let updated = False;
          (now, w') = Date_now w
      in if end' < now then ((updated, decoded), w')
         else
           let outttl = max ((end' - now) div 1000) ttlGraceSec;
               (updated', as') = updateTtl_loop outttl (answers decoded) updated
           in ((updated', decoded\<lparr>answers := as'\<rparr>), w'))"

definition updateQueryId :: "packet \<Rightarrow> int \<Rightarrow> bool \<times> packet" where
  "updateQueryId decoded queryId =
     (if queryId = 0 then (False, decoded)
      else if queryId = pkt_id decoded then (False, decoded)
      else (True, decoded\<lparr>pkt_id := queryId\<rparr>))"

subsection \<open>Collaborators\<close>

text \<open>
  What the resolver is given from outside this file: the parser behind
  \<open>this.dnsParser\<close> (\<open>Decode\<close> and \<open>Encode\<close> throw on failure, which is \<open>None\<close>), the
  \<open>origin\<close> of a \<open>URL\<close>, and the minimum DNS message size of dnsutil.
\<close>

record env =
  Decode :: "bytes \<Rightarrow> packet option"
  Encode :: "packet \<Rightarrow> bytes option"
  URL_origin :: "string \<Rightarrow> string"
  minDNSPacketSize :: nat

text \<open>
  The argument of \<open>RethinkModule\<close>. \<open>blocklistFilter\<close> stands for
  \<open>blFilter.getDomainInfo(name).searchResult\<close> as an object; the scheduler
  \<open>param.event\<close> is the field \<open>waitUntil\<close> of the world.
\<close>

record param =
  request_url :: string
  requestBodyBuffer :: bytes
  dnsResolverUrl :: string
  requestDecodedDnsPacket :: packet
  blocklistFilter :: "string \<Rightarrow> (string \<times> string) list"

text \<open>Every \<open>throw\<close> of the file, and the failed call of a value that is no function.\<close>

datatype error =
  Error string
| HttpErr nat string
| TypeError string

text \<open>
  The outcome of \<open>resolveDnsUpstream\<close>, which talks to the network (over UDP and TCP,
  or over HTTPS): the promise rejects, or resolves to a response or to nothing. The
  outcome is an input of the model; of the response, the model keeps what
  \<open>upstreamQuery\<close> reads.
\<close>

record upRes =
  ok :: bool
  status :: nat
  statusText :: string
  arrayBuffer :: bytes

datatype upstream =
  Rejects error
| Resolves "upRes option"

record resolved =
  responseBodyBuffer :: bytes
  responseDecodedDnsPacket :: packet

text \<open>
  Modelled from the spec: \<open>util.emptyResponse\<close> and \<open>util.errResponse\<close> (helpers/util.js,
  a file outside dnsResolver.js): the answer, or a structured error result that names
  the failing stage and carries the error.
\<close>

datatype response =
  Data resolved
| ErrResponse string error

subsection \<open>Cache materialization\<close>

definition makeCacheResponse ::
  "env \<Rightarrow> int \<Rightarrow> bytes \<Rightarrow> int option \<Rightarrow> world \<Rightarrow> cacheRes option \<times> world" where
  "makeCacheResponse e queryId pkt expiry w =
     (let (stale, w1) =
            (case expiry of
               None \<Rightarrow> (False, w)
             | Some x \<Rightarrow> (let (now, w') = Date_now w in (x < now, w')))
      in if stale then (None, w1)
         else
           (case Decode e pkt of
              None \<Rightarrow> (None, w1)
            | Some decoded \<Rightarrow>
                (let (expiry', w2) =
                       (case expiry of
                          None \<Rightarrow> determineCacheExpiry decoded w1
                        | Some x \<Rightarrow> (x, w1));
                     ((reencode, decoded1), w3) = updateTtl decoded expiry' w2;
                     (changed, decoded2) = updateQueryId decoded1 queryId;
                     reencode' = (changed \<or> reencode);
                     updatedDnsPacket = (if reencode' then Encode e decoded2 else Some pkt)
                 in (case updatedDnsPacket of
                       None \<Rightarrow> (None, w3)
                     | Some u \<Rightarrow>
                         (Some \<lparr>dnsPacket = u, ttlEndTime = Some expiry',
                                decodedDnsPacket = decoded2\<rparr>, w3)))))"

text \<open>
  Modelled from the spec: the local store \<open>LocalCache\<close> (cache-wrapper.js, a file outside
  dnsResolver.js), \<open>get(key)\<close> giving the value or a miss and \<open>put(key, value)\<close>
  storing it; the store is a map and its eviction is left out.
\<close>

definition LocalCache_Get :: "(string \<rightharpoonup> local_entry) \<Rightarrow> string \<Rightarrow> local_entry option" where
  "LocalCache_Get c k = c k"

definition LocalCache_Put ::
  "(string \<rightharpoonup> local_entry) \<Rightarrow> string \<Rightarrow> local_entry \<Rightarrow> (string \<rightharpoonup> local_entry)" where
  "LocalCache_Put c k v = c(k \<mapsto> v)"

definition resolveFromLocalCache ::
  "env \<Rightarrow> int \<Rightarrow> string \<Rightarrow> world \<Rightarrow> cacheRes option \<times> world" where
  "resolveFromLocalCache e queryId key w =
     (case LocalCache_Get (dnsResCache w) key of
        None \<Rightarrow> (None, w)
      | Some cres \<Rightarrow> makeCacheResponse e queryId (dnsPacket cres) (ttlEndTime cres) w)"

definition httpCacheKey :: "env \<Rightarrow> string \<Rightarrow> string \<Rightarrow> string" where
  "httpCacheKey e u p = URL_origin e u @ ''/'' @ p"

definition resolveFromHttpCache ::
  "env \<Rightarrow> int \<Rightarrow> string \<Rightarrow> string \<Rightarrow> world \<Rightarrow> (error + cacheRes option) \<times> world" where
  "resolveFromHttpCache e queryId url key w =
     (case httpCache w of
        None \<Rightarrow> (Inr None, w)
      | Some hc \<Rightarrow>
          (case hc (httpCacheKey e url key) of
             None \<Rightarrow> (Inr None, w)
           | Some resp \<Rightarrow>
               (case x_rethink_metadata resp of
                  None \<Rightarrow> (Inl (TypeError ''cannot read ttlEndTime of the metadata''), w)
                | Some md \<Rightarrow>
                    (let (r, w') = makeCacheResponse e queryId (body resp) (meta_ttlEndTime md) w
                     in (Inr r, w')))))"

subsection \<open>Cache population\<close>

definition updateLocalCacheIfNeeded :: "string option \<Rightarrow> cacheRes option \<Rightarrow> world \<Rightarrow> world" where
  "updateLocalCacheIfNeeded k v w =
     (case k of
        None \<Rightarrow> w
      | Some key \<Rightarrow>
          if key = [] then w
          else
            (case v of
               None \<Rightarrow> w
             | Some cr \<Rightarrow>
                 (case ttlEndTime cr of
                    None \<Rightarrow> w
                  | Some t \<Rightarrow>
                      if t = 0 then w
                      else
                        (let nv = \<lparr>dnsPacket = dnsPacket cr, ttlEndTime = ttlEndTime cr\<rparr>
                         in w\<lparr>dnsResCache := LocalCache_Put (dnsResCache w) key nv\<rparr>))))"

text \<open>The function \<open>httpCacheMetadata\<close> of the module, declared after the class.\<close>

definition httpCacheMetadata ::
  "cacheRes \<Rightarrow> (string \<Rightarrow> (string \<times> string) list) \<Rightarrow> error + metadata" where
  "httpCacheMetadata cr blFilter =
     (if length (questions (decodedDnsPacket cr)) \<noteq> 1
      then Inl (Error ''cache expects just the one dns question'')
      else
        let name' = name (questions (decodedDnsPacket cr) ! 0)
        in Inr \<lparr>meta_ttlEndTime = ttlEndTime cr, meta_bodyUsed = True,
                meta_blocklistInfo = blFilter name'\<rparr>)"

text \<open>
  The properties an instance of \<open>DNSResolver\<close> has: the fields the constructor sets, the
  methods of the class body and the two methods added to the prototype.
  \<open>this.httpCacheMetadata\<close> in \<open>httpCacheHeaders\<close> is a lookup among them.
\<close>

definition DNSResolver_members :: "string list" where
  "DNSResolver_members =
     [''dnsParser'', ''dnsResCache'', ''httpCache'', ''http2'', ''nodeUtil'', ''transport'',
      ''lazyInit'', ''RethinkModule'', ''resolveRequest'', ''resolveFromCache'',
      ''resolveFromLocalCache'', ''resolveFromHttpCache'', ''makeCacheResponse'',
      ''updateCachesIfNeeded'', ''updateLocalCacheIfNeeded'', ''updateHttpCacheIfNeeded'',
      ''httpCacheHeaders'', ''upstreamQuery'', ''determineCacheExpiry'', ''cacheKey'',
      ''httpCacheKey'', ''updateQueryId'', ''updateTtl'', ''resolveDnsUpstream'', ''doh2'']"

text \<open>
  \<open>httpCacheHeaders\<close>: of the headers it joins, the model keeps \<open>x-rethink-metadata\<close>;
  the others come from util and are not read by the resolver.
\<close>

definition httpCacheHeaders ::
  "cacheRes \<Rightarrow> (string \<Rightarrow> (string \<times> string) list) \<Rightarrow> error + metadata" where
  "httpCacheHeaders cres blFilter =
     (if ''httpCacheMetadata'' \<in> set DNSResolver_members
      then httpCacheMetadata cres blFilter
      else Inl (TypeError ''this.httpCacheMetadata is not a function''))"

definition updateHttpCacheIfNeeded ::
  "env \<Rightarrow> param \<Rightarrow> string option \<Rightarrow> cacheRes option \<Rightarrow> world \<Rightarrow> error option \<times> world" where
  "updateHttpCacheIfNeeded e prm k cacheRes' w =
     (case httpCache w of
        None \<Rightarrow> (None, w)
      | Some hc \<Rightarrow>
          (case k of
             None \<Rightarrow> (None, w)
           | Some key \<Rightarrow>
               if key = [] then (None, w)
               else
                 (case cacheRes' of
                    None \<Rightarrow> (None, w)
                  | Some cr \<Rightarrow>
                      (case ttlEndTime cr of
                         None \<Rightarrow> (None, w)
                       | Some t \<Rightarrow>
                           if t = 0 then (None, w)
                           else
                             (let cacheUrl = httpCacheKey e (request_url prm) key
                              in (case httpCacheHeaders cr (blocklistFilter prm) of
                                    Inl err \<Rightarrow> (Some err, w)
                                  | Inr md \<Rightarrow>
                                      (let value = \<lparr>body = dnsPacket cr,
                                                     x_rethink_metadata = Some md\<rparr>
                                       in (None,
                                           w\<lparr>waitUntil := waitUntil w @ [(cacheUrl, value)]\<rparr>))))))))"

definition updateCachesIfNeeded ::
  "env \<Rightarrow> param \<Rightarrow> cacheRes option \<Rightarrow> world \<Rightarrow> error option \<times> world" where
  "updateCachesIfNeeded e prm cacheRes' w =
     (case cacheRes' of
        None \<Rightarrow> (None, w)
      | Some cr \<Rightarrow>
          (case cacheKey (requestDecodedDnsPacket prm) of
             None \<Rightarrow> (None, w)
           | Some k \<Rightarrow>
               if k = [] then (None, w)
               else
                 (let w1 = updateLocalCacheIfNeeded (Some k) cacheRes' w
                  in updateHttpCacheIfNeeded e prm (Some k) cacheRes' w1)))"

subsection \<open>The orchestrator\<close>

definition resolveFromCache ::
  "env \<Rightarrow> param \<Rightarrow> world \<Rightarrow> (error + cacheRes option) \<times> world" where
  "resolveFromCache e prm w =
     (let key = cacheKey (requestDecodedDnsPacket prm);
          qid = pkt_id (requestDecodedDnsPacket prm);
          url = request_url prm
      in (case key of
            None \<Rightarrow> (Inr None, w)
          | Some k \<Rightarrow>
              if k = [] then (Inr None, w)
              else
                (let (cacheRes', w1) = resolveFromLocalCache e qid k w
                 in (case cacheRes' of
                       Some cr \<Rightarrow> (Inr (Some cr), w1)
                     | None \<Rightarrow>
                         (case resolveFromHttpCache e qid url k w1 of
                            (Inl err, w2) \<Rightarrow> (Inl err, w2)
                          | (Inr r, w2) \<Rightarrow>
                              (Inr r, updateLocalCacheIfNeeded (Some k) r w2))))))"

definition upstreamQuery ::
  "env \<Rightarrow> param \<Rightarrow> upstream \<Rightarrow> world \<Rightarrow> (error + cacheRes option) \<times> world" where
  "upstreamQuery e prm up w =
     (case up of
        Rejects err \<Rightarrow> (Inl err, w)
      | Resolves None \<Rightarrow> (Inl (Error ''no upstream result''), w)
      | Resolves (Some r) \<Rightarrow>
          if \<not> ok r then (Inl (HttpErr (status r) (statusText r)), w)
          else
            let pkt = arrayBuffer r in
            if \<not> validResponseSize (minDNSPacketSize e) pkt
            then (Inl (Error ''inadequate response from upstream''), w)
            else
              let queryId = pkt_id (requestDecodedDnsPacket prm);
                  (r', w') = makeCacheResponse e queryId pkt None w
              in (Inr r', w'))"

text \<open>
  \<open>resolveRequest\<close>. \<open>updateCachesIfNeeded\<close> is an async function called without
  \<open>await\<close>: its body runs at once, and an error it throws rejects a promise nobody
  looks at, so only its effect on the world is kept.
\<close>

definition resolveRequest ::
  "env \<Rightarrow> param \<Rightarrow> upstream \<Rightarrow> world \<Rightarrow> (error + resolved) \<times> world" where
  "resolveRequest e prm up w =
     (case resolveFromCache e prm w of
        (Inl err, w1) \<Rightarrow> (Inl err, w1)
      | (Inr (Some cr), w1) \<Rightarrow>
          (Inr \<lparr>responseBodyBuffer = dnsPacket cr,
                responseDecodedDnsPacket = decodedDnsPacket cr\<rparr>, w1)
      | (Inr None, w1) \<Rightarrow>
          (case upstreamQuery e prm up w1 of
             (Inl err, w2) \<Rightarrow> (Inl err, w2)
           | (Inr cres, w2) \<Rightarrow>
               (let w3 = snd (updateCachesIfNeeded e prm cres w2)
                in (case cres of
                      None \<Rightarrow> (Inl (Error ''No answer from cache or upstream''), w3)
                    | Some cr \<Rightarrow>
                        (Inr \<lparr>responseBodyBuffer = dnsPacket cr,
                              responseDecodedDnsPacket = decodedDnsPacket cr\<rparr>, w3)))))"

text \<open>
  \<open>RethinkModule\<close>, after \<open>lazyInit\<close>: the world has its local cache, and its edge
  cache on Workers only. The \<open>try\<close> turns a throw of \<open>resolveRequest\<close> into the error
  response.
\<close>

definition RethinkModule :: "env \<Rightarrow> param \<Rightarrow> upstream \<Rightarrow> world \<Rightarrow> response \<times> world" where
  "RethinkModule e prm up w =
     (case resolveRequest e prm up w of
        (Inr d, w') \<Rightarrow> (Data d, w')
      | (Inl err, w') \<Rightarrow> (ErrResponse ''dnsResolver'' err, w'))"

subsection \<open>Notions used to state the properties\<close>

text \<open>
  An answer whose \<open>ttl\<close> is falsy (\<open>!a.ttl\<close>: missing or zero), and the TTLs of the
  other answers of a list, in order.
\<close>

definition falsyTtl :: "answer \<Rightarrow> bool" where
  "falsyTtl a = (case ttl a of None \<Rightarrow> True | Some t \<Rightarrow> t = 0)"

definition truthyTtls :: "answer list \<Rightarrow> int list" where
  "truthyTtls as = map (the \<circ> ttl) (filter (\<lambda>a. \<not> falsyTtl a) as)"

text \<open>
  What one round of the loop of \<open>updateTtl\<close> does to a record: nothing to the pseudo
  record and to a record whose TTL is \<open>outttl\<close> already.
\<close>

definition setTtl :: "int \<Rightarrow> answer \<Rightarrow> answer" where
  "setTtl outttl a =
     (if optAnswer a then a else if ttl a = Some outttl then a else a\<lparr>ttl := Some outttl\<rparr>)"

text \<open>
  Two worlds that differ at most in the number of clock readings made: the clock, the
  two cache tiers and the scheduled tasks are the same.
\<close>

definition sameButTicks :: "world \<Rightarrow> world \<Rightarrow> bool" where
  "sameButTicks w w' =
     (clock w' = clock w \<and> dnsResCache w' = dnsResCache w \<and> httpCache w' = httpCache w
      \<and> waitUntil w' = waitUntil w)"

text \<open>
  What \<open>resolveFromCache\<close> does once the local tier has given nothing (the edge lookup
  and the promotion into the local tier), and what \<open>resolveRequest\<close> does once
  \<open>resolveFromCache\<close> has given nothing (the upstream query, the cache population and
  the answer or the error).
\<close>

definition afterLocalMiss ::
  "env \<Rightarrow> param \<Rightarrow> string \<Rightarrow> world \<Rightarrow> (error + cacheRes option) \<times> world" where
  "afterLocalMiss e prm k w1 =
     (case resolveFromHttpCache e (pkt_id (requestDecodedDnsPacket prm)) (request_url prm) k w1 of
        (Inl err, w2) \<Rightarrow> (Inl err, w2)
      | (Inr r, w2) \<Rightarrow> (Inr r, updateLocalCacheIfNeeded (Some k) r w2))"

definition afterCacheMiss ::
  "env \<Rightarrow> param \<Rightarrow> upstream \<Rightarrow> world \<Rightarrow> (error + resolved) \<times> world" where
  "afterCacheMiss e prm up w1 =
     (case upstreamQuery e prm up w1 of
        (Inl err, w2) \<Rightarrow> (Inl err, w2)
      | (Inr cres, w2) \<Rightarrow>
          (let w3 = snd (updateCachesIfNeeded e prm cres w2)
           in (case cres of
                 None \<Rightarrow> (Inl (Error ''No answer from cache or upstream''), w3)
               | Some cr \<Rightarrow>
                   (Inr \<lparr>responseBodyBuffer = dnsPacket cr,
                         responseDecodedDnsPacket = decodedDnsPacket cr\<rparr>, w3))))"

text \<open>A cache response whose \<open>ttlEndTime\<close> is falsy (\<open>!v.ttlEndTime\<close>): missing or zero.\<close>

definition noExpiry :: "'a local_entry_scheme \<Rightarrow> bool" where
  "noExpiry v = (case ttlEndTime v of None \<Rightarrow> True | Some t \<Rightarrow> t = 0)"

text \<open>
  A relation between the world before and after a step: an entry the local cache holds
  after the step was there before, or has a \<open>ttlEndTime\<close> that is neither missing nor
  zero.
\<close>

definition addsOnlyExpiring :: "world \<Rightarrow> world \<Rightarrow> bool" where
  "addsOnlyExpiring w w' =
     (\<forall>k ent. dnsResCache w' k = Some ent \<longrightarrow> dnsResCache w k = Some ent \<or> \<not> noExpiry ent)"

subsection \<open>Example inputs\<close>

text \<open>
  A query for \<open>example.com A\<close> with id 7, its answer with one record of TTL 300, an
  NXDOMAIN answer, and a parser that decodes the bytes of these two answers only and
  encodes packets with one answer. The bytes stand for a message whose last two bytes
  are the TTL. The clock reads 1000, 1001, ...
\<close>

definition exQuery :: packet where
  "exQuery = \<lparr>pkt_id = 7, rcode = ''NOERROR'',
              questions = [\<lparr>name = ''example.com'', qtype = ''A''\<rparr>], answers = []\<rparr>"

definition exAnswer :: packet where
  "exAnswer = \<lparr>pkt_id = 7, rcode = ''NOERROR'',
               questions = [\<lparr>name = ''example.com'', qtype = ''A''\<rparr>],
               answers = [\<lparr>atype = ''A'', ttl = Some 300\<rparr>]\<rparr>"

definition exBytes :: "int \<Rightarrow> bytes" where
  "exBytes t =
     [0, 7, 129, 128, 0, 1, 0, 1, 0, 0, 0, 0, 7, 0, 0, 1, 0, 1, nat t div 256, nat t mod 256]"

definition exNx :: packet where
  "exNx = \<lparr>pkt_id = 7, rcode = ''NXDOMAIN'',
           questions = [\<lparr>name = ''example.com'', qtype = ''A''\<rparr>], answers = []\<rparr>"

definition exEnv :: env where
  "exEnv =
     \<lparr>Decode = (\<lambda>b. if b = exBytes 300 then Some exAnswer
                     else if b = exBytes 0 then Some exNx else None),
      Encode = (\<lambda>p. case answers p of
                        [a] \<Rightarrow> (case ttl a of Some t \<Rightarrow> Some (exBytes t) | None \<Rightarrow> None)
                      | _ \<Rightarrow> None),
      URL_origin = (\<lambda>u. ''https://dns.example''),
      minDNSPacketSize = 17\<rparr>"

definition exParam :: param where
  "exParam =
     \<lparr>request_url = ''https://dns.example/dns-query'', requestBodyBuffer = [0, 7, 1, 0],
      dnsResolverUrl = ''https://cloudflare-dns.com/dns-query'',
      requestDecodedDnsPacket = exQuery,
      blocklistFilter = (\<lambda>n. [])\<rparr>"

definition exWorld ::
  "(string \<rightharpoonup> local_entry) \<Rightarrow> (string \<rightharpoonup> http_response) option \<Rightarrow> world" where
  "exWorld lc hc =
     \<lparr>clock = (\<lambda>k. 1000 + int k), ticks = 0, dnsResCache = lc, httpCache = hc, waitUntil = []\<rparr>"

definition exKey :: string where
  "exKey = ''example.com:A''"

definition exStale :: local_entry where
  "exStale = \<lparr>dnsPacket = exBytes 300, ttlEndTime = Some 500\<rparr>"

definition exMeta :: "int \<Rightarrow> metadata" where
  "exMeta t = \<lparr>meta_ttlEndTime = Some t, meta_bodyUsed = True, meta_blocklistInfo = []\<rparr>"

definition exResp :: "int \<Rightarrow> http_response" where
  "exResp t = \<lparr>body = exBytes 300, x_rethink_metadata = Some (exMeta t)\<rparr>"

definition exUpOf :: "bytes \<Rightarrow> upstream" where
  "exUpOf b = Resolves (Some \<lparr>ok = True, status = 200, statusText = ''OK'', arrayBuffer = b\<rparr>)"

definition exStaleWorld :: world where
  "exStaleWorld =
     exWorld [exKey \<mapsto> exStale] (Some [''https://dns.example/example.com:A'' \<mapsto> exResp 500])"

text \<open>
  The cache response of the fresh answer, a world with both tiers empty, and entries
  whose bytes the parser refuses.
\<close>

definition exFresh :: "int \<Rightarrow> cacheRes" where
  "exFresh t =
     \<lparr>dnsPacket = exBytes 329, ttlEndTime = Some t,
      decodedDnsPacket = exAnswer\<lparr>answers := [\<lparr>atype = ''A'', ttl = Some 329\<rparr>]\<rparr>\<rparr>"

definition exEdgeWorld :: world where
  "exEdgeWorld = exWorld Map.empty (Some Map.empty)"

definition exGarbled :: local_entry where
  "exGarbled = \<lparr>dnsPacket = exBytes 1, ttlEndTime = Some 900000\<rparr>"

definition exGarbledLocal :: world where
  "exGarbledLocal = exWorld [exKey \<mapsto> exGarbled] None"

definition exGarbledResp :: http_response where
  "exGarbledResp = \<lparr>body = exBytes 1, x_rethink_metadata = Some (exMeta 900000)\<rparr>"

definition exGarbledEdge :: world where
  "exGarbledEdge =
     exWorld Map.empty (Some [''https://dns.example/example.com:A'' \<mapsto> exGarbledResp])"

section \<open>Properties\<close>

subsection \<open>Expiry of a new cache entry\<close>

lemma ttl_or_falsy: "falsyTtl a \<Longrightarrow> ttl_or a m = m"
  by (auto simp: ttl_or_def falsyTtl_def split: option.splits)

lemma ttl_or_truthy: "\<not> falsyTtl a \<Longrightarrow> ttl_or a m = the (ttl a)"
  by (auto simp: ttl_or_def falsyTtl_def split: option.splits)

lemma minttl_loop_filter:
  "minttl_loop as m = minttl_loop (filter (\<lambda>a. \<not> falsyTtl a) as) m"
  by (induction as arbitrary: m) (simp_all add: ttl_or_falsy)

lemma minttl_loop_fold: "minttl_loop as m = fold min (truthyTtls as) m"
  by (induction as arbitrary: m) (simp_all add: truthyTtls_def ttl_or_falsy ttl_or_truthy)

lemma fold_min_Min: "fold min xs (m::int) = Min (insert m (set xs))"
proof -
  have "Min (set (m # xs)) = fold min xs m" by (rule Min.set_eq_fold)
  then show ?thesis by simp
qed

lemma minttl_loop_Min:
  "minttl_loop as m = (if truthyTtls as = [] then m else min m (Min (set (truthyTtls as))))"
  by (simp add: minttl_loop_fold fold_min_Min Min_insert2 min_def)

lemma minttl_loop_all_falsy: "list_all falsyTtl as \<Longrightarrow> minttl_loop as m = m"
  by (induction as arbitrary: m) (simp_all add: ttl_or_falsy)

lemma determineCacheExpiry_char:
  "determineCacheExpiry p w =
     (if rcodeNoError p \<and> hasAnswers p \<and> truthyTtls (answers p) \<noteq> []
         \<and> Min (set (truthyTtls (answers p))) < highTtl
      then (now_of w + max (Min (set (truthyTtls (answers p))) + ttlGraceSec) ttlGraceSec * 1000,
            tick w)
      else (0, w))"
proof (cases "rcodeNoError p \<and> hasAnswers p")
  case False
  then show ?thesis by (auto simp: determineCacheExpiry_def)
next
  case True
  show ?thesis
  proof (cases "truthyTtls (answers p) = []")
    case e: True
    with True show ?thesis by (simp add: determineCacheExpiry_def minttl_loop_Min)
  next
    case ne: False
    show ?thesis
    proof (cases "Min (set (truthyTtls (answers p))) < highTtl")
      case lt: True
      then have "min highTtl (Min (set (truthyTtls (answers p))))
                 = Min (set (truthyTtls (answers p)))"
        by simp
      with True ne lt show ?thesis
        by (simp add: determineCacheExpiry_def minttl_loop_Min Date_now_def)
    next
      case ge: False
      then have "min highTtl (Min (set (truthyTtls (answers p)))) = highTtl"
        by simp
      with True ne ge show ?thesis
        by (simp add: determineCacheExpiry_def minttl_loop_Min)
    qed
  qed
qed

text \<open>
  Claim C1, as amended. \<open>determineCacheExpiry\<close> returns the sentinel 0, and does not
  read the clock, when the response code is not "no error", when there is no answer,
  and also when no answer has a TTL that is present, non-zero and below \<open>1 << 30\<close>.
  Otherwise it returns the clock's reading plus \<open>max (m + 30) 30\<close> seconds, in
  milliseconds, \<open>m\<close> being the least of the TTLs that are present and non-zero.
\<close>

theorem determineCacheExpiry_min_truthy_ttl:
  "determineCacheExpiry p w =
     (if rcodeNoError p \<and> hasAnswers p \<and> truthyTtls (answers p) \<noteq> []
         \<and> Min (set (truthyTtls (answers p))) < highTtl
      then (now_of w + max (Min (set (truthyTtls (answers p))) + 30) 30 * 1000, tick w)
      else (0, w))"
  using determineCacheExpiry_char [of p w] by (simp add: ttlGraceSec_def)

theorem determineCacheExpiry_min_truthy_ttl_witness:
  "determineCacheExpiry
     \<lparr>pkt_id = 7, rcode = ''NOERROR'', questions = [\<lparr>name = ''example.com'', qtype = ''A''\<rparr>],
      answers = [\<lparr>atype = ''A'', ttl = Some 300\<rparr>, \<lparr>atype = ''A'', ttl = Some 0\<rparr>,
                 \<lparr>atype = ''OPT'', ttl = None\<rparr>, \<lparr>atype = ''A'', ttl = Some 60\<rparr>]\<rparr>
     \<lparr>clock = (\<lambda>k. 1000 + int k), ticks = 0, dnsResCache = Map.empty, httpCache = None,
      waitUntil = []\<rparr>
   = (91000,
      \<lparr>clock = (\<lambda>k. 1000 + int k), ticks = 1, dnsResCache = Map.empty, httpCache = None,
       waitUntil = []\<rparr>)"
  using determineCacheExpiry_min_truthy_ttl
    [of "\<lparr>pkt_id = 7, rcode = ''NOERROR'',
          questions = [\<lparr>name = ''example.com'', qtype = ''A''\<rparr>],
          answers = [\<lparr>atype = ''A'', ttl = Some 300\<rparr>, \<lparr>atype = ''A'', ttl = Some 0\<rparr>,
                     \<lparr>atype = ''OPT'', ttl = None\<rparr>, \<lparr>atype = ''A'', ttl = Some 60\<rparr>]\<rparr>"
        "\<lparr>clock = (\<lambda>k. 1000 + int k), ticks = 0, dnsResCache = Map.empty, httpCache = None,
          waitUntil = []\<rparr>"]
  by (simp add: rcodeNoError_def hasAnswers_def truthyTtls_def falsyTtl_def highTtl_def
      now_of_def tick_def)

text \<open>
  Claim C1 as it was stated fails on a "no error" packet whose one answer has TTL 0:
  the result is the sentinel 0, and not the reading of the clock plus
  \<open>max (min {0} + 30) 30\<close> seconds.
\<close>

theorem determineCacheExpiry_zero_ttl_counterexample:
  "rcodeNoError \<lparr>pkt_id = 7, rcode = ''NOERROR'',
       questions = [\<lparr>name = ''example.com'', qtype = ''A''\<rparr>],
       answers = [\<lparr>atype = ''A'', ttl = Some 0\<rparr>]\<rparr>
   \<and> map ttl (answers \<lparr>pkt_id = 7, rcode = ''NOERROR'',
       questions = [\<lparr>name = ''example.com'', qtype = ''A''\<rparr>],
       answers = [\<lparr>atype = ''A'', ttl = Some 0\<rparr>]\<rparr>) = [Some 0]
   \<and> fst (determineCacheExpiry
        \<lparr>pkt_id = 7, rcode = ''NOERROR'',
         questions = [\<lparr>name = ''example.com'', qtype = ''A''\<rparr>],
         answers = [\<lparr>atype = ''A'', ttl = Some 0\<rparr>]\<rparr>
        \<lparr>clock = (\<lambda>k. 1000 + int k), ticks = 0, dnsResCache = Map.empty, httpCache = None,
         waitUntil = []\<rparr>) = 0
   \<and> fst (determineCacheExpiry
        \<lparr>pkt_id = 7, rcode = ''NOERROR'',
         questions = [\<lparr>name = ''example.com'', qtype = ''A''\<rparr>],
         answers = [\<lparr>atype = ''A'', ttl = Some 0\<rparr>]\<rparr>
        \<lparr>clock = (\<lambda>k. 1000 + int k), ticks = 0, dnsResCache = Map.empty, httpCache = None,
         waitUntil = []\<rparr>)
       \<noteq> now_of \<lparr>clock = (\<lambda>k. 1000 + int k), ticks = 0, dnsResCache = Map.empty,
                httpCache = None, waitUntil = []\<rparr>
           + max (Min {0} + 30) 30 * 1000"
  by (simp add: rcodeNoError_def determineCacheExpiry_def hasAnswers_def ttl_or_def
      highTtl_def now_of_def)

text \<open>
  Claim C10. An answer whose TTL is zero or missing does not take part in the minimum
  that \<open>determineCacheExpiry\<close> computes: the loop gives the same result on the answers
  without these records. When every answer of a packet has such a TTL, the result is
  the sentinel 0 and the clock is not read.
\<close>

theorem determineCacheExpiry_skips_falsy_ttl:
  "minttl_loop as m = minttl_loop (filter (\<lambda>a. \<not> falsyTtl a) as) m
   \<and> (list_all falsyTtl (answers p) \<longrightarrow> determineCacheExpiry p w = (0, w))"
proof
  show "minttl_loop as m = minttl_loop (filter (\<lambda>a. \<not> falsyTtl a) as) m"
    by (rule minttl_loop_filter)
  show "list_all falsyTtl (answers p) \<longrightarrow> determineCacheExpiry p w = (0, w)"
    by (simp add: determineCacheExpiry_def minttl_loop_all_falsy)
qed

theorem determineCacheExpiry_skips_falsy_ttl_witness:
  "minttl_loop [\<lparr>atype = ''A'', ttl = Some 300\<rparr>, \<lparr>atype = ''A'', ttl = Some 0\<rparr>,
                \<lparr>atype = ''OPT'', ttl = None\<rparr>] highTtl = 300
   \<and> filter (\<lambda>a. \<not> falsyTtl a)
        [\<lparr>atype = ''A'', ttl = Some 300\<rparr>, \<lparr>atype = ''A'', ttl = Some 0\<rparr>,
         \<lparr>atype = ''OPT'', ttl = None\<rparr>] = [\<lparr>atype = ''A'', ttl = Some 300\<rparr>]
   \<and> rcodeNoError \<lparr>pkt_id = 7, rcode = ''NOERROR'',
         questions = [\<lparr>name = ''example.com'', qtype = ''A''\<rparr>],
         answers = [\<lparr>atype = ''A'', ttl = Some 0\<rparr>, \<lparr>atype = ''OPT'', ttl = None\<rparr>]\<rparr>
   \<and> list_all falsyTtl [\<lparr>atype = ''A'', ttl = Some 0\<rparr>, \<lparr>atype = ''OPT'', ttl = None\<rparr>]
   \<and> determineCacheExpiry
        \<lparr>pkt_id = 7, rcode = ''NOERROR'',
         questions = [\<lparr>name = ''example.com'', qtype = ''A''\<rparr>],
         answers = [\<lparr>atype = ''A'', ttl = Some 0\<rparr>, \<lparr>atype = ''OPT'', ttl = None\<rparr>]\<rparr>
        \<lparr>clock = (\<lambda>k. 1000 + int k), ticks = 0, dnsResCache = Map.empty, httpCache = None,
         waitUntil = []\<rparr>
       = (0, \<lparr>clock = (\<lambda>k. 1000 + int k), ticks = 0, dnsResCache = Map.empty,
              httpCache = None, waitUntil = []\<rparr>)"
  using determineCacheExpiry_skips_falsy_ttl
    [of "[\<lparr>atype = ''A'', ttl = Some 300\<rparr>, \<lparr>atype = ''A'', ttl = Some 0\<rparr>,
          \<lparr>atype = ''OPT'', ttl = None\<rparr>]" highTtl
        "\<lparr>pkt_id = 7, rcode = ''NOERROR'',
          questions = [\<lparr>name = ''example.com'', qtype = ''A''\<rparr>],
          answers = [\<lparr>atype = ''A'', ttl = Some 0\<rparr>, \<lparr>atype = ''OPT'', ttl = None\<rparr>]\<rparr>"
        "\<lparr>clock = (\<lambda>k. 1000 + int k), ticks = 0, dnsResCache = Map.empty, httpCache = None,
          waitUntil = []\<rparr>"]
  by (simp add: falsyTtl_def rcodeNoError_def ttl_or_def highTtl_def)

subsection \<open>The cache key\<close>

lemma lower_trim_example: "toLowerCase (trim '' Example.COM  '') = ''example.com''"
  by code_simp

text \<open>
  Claim C7. \<open>cacheKey\<close> returns none exactly when the packet does not have one
  question. With one question it returns the name, trimmed and in lower case, then
  \<open>:\<close> and the record type. The result is a function of the questions alone, so
  every call on the same packet gives the same key.
\<close>

theorem cacheKey_one_question:
  "(cacheKey p = None) = (length (questions p) \<noteq> 1)
   \<and> (\<forall>q. questions p = [q] \<longrightarrow>
         cacheKey p = Some (toLowerCase (trim (name q)) @ '':'' @ qtype q))
   \<and> (\<forall>p'. questions p' = questions p \<longrightarrow> cacheKey p' = cacheKey p)"
  by (auto simp: cacheKey_def Let_def)

theorem cacheKey_one_question_witness:
  "cacheKey \<lparr>pkt_id = 7, rcode = ''NOERROR'',
      questions = [\<lparr>name = '' Example.COM  '', qtype = ''A''\<rparr>], answers = []\<rparr>
     = Some ''example.com:A''
   \<and> cacheKey \<lparr>pkt_id = 7, rcode = ''NOERROR'',
      questions = [\<lparr>name = ''a.example'', qtype = ''A''\<rparr>, \<lparr>name = ''b.example'', qtype = ''AAAA''\<rparr>],
      answers = []\<rparr> = None
   \<and> cacheKey \<lparr>pkt_id = 7, rcode = ''NOERROR'', questions = [], answers = []\<rparr> = None"
  using cacheKey_one_question
      [of "\<lparr>pkt_id = 7, rcode = ''NOERROR'',
            questions = [\<lparr>name = '' Example.COM  '', qtype = ''A''\<rparr>], answers = []\<rparr>"]
    cacheKey_one_question
      [of "\<lparr>pkt_id = 7, rcode = ''NOERROR'',
      questions = [\<lparr>name = ''a.example'', qtype = ''A''\<rparr>, \<lparr>name = ''b.example'', qtype = ''AAAA''\<rparr>],
      answers = []\<rparr>"]
    cacheKey_one_question [of "\<lparr>pkt_id = 7, rcode = ''NOERROR'', questions = [], answers = []\<rparr>"]
  by (simp add: lower_trim_example)

subsection \<open>Rewriting the TTLs\<close>

lemma setTtl_fixed: "(setTtl out a = a) = (optAnswer a \<or> ttl a = Some out)"
proof -
  have "ttl a \<noteq> Some out \<Longrightarrow> a\<lparr>ttl := Some out\<rparr> \<noteq> a"
    by (metis answer.select_convs(2) answer.surjective answer.update_convs(2))
  then show ?thesis by (auto simp: setTtl_def)
qed

lemma setTtl_idem: "setTtl out (setTtl out a) = setTtl out a"
  by (simp add: setTtl_def optAnswer_def)

lemma map_setTtl_changed:
  "(map (setTtl out) as \<noteq> as) = (map ttl (map (setTtl out) as) \<noteq> map ttl as)"
proof (induction as)
  case Nil
  show ?case by simp
next
  case (Cons a as)
  have "(ttl (setTtl out a) = ttl a) = (optAnswer a \<or> ttl a = Some out)"
    by (auto simp: setTtl_def)
  then have "(setTtl out a = a) = (ttl (setTtl out a) = ttl a)"
    by (simp add: setTtl_fixed)
  with Cons show ?case by auto
qed

lemma updateTtl_loop_map:
  "updateTtl_loop out as u = (u \<or> map (setTtl out) as \<noteq> as, map (setTtl out) as)"
proof (induction as arbitrary: u)
  case Nil
  show ?case by simp
next
  case (Cons a as)
  show ?case
  proof (cases "optAnswer a \<or> ttl a = Some out")
    case True
    then have "setTtl out a = a" by (simp add: setTtl_fixed)
    with True Cons show ?thesis by auto
  next
    case False
    then have "setTtl out a \<noteq> a" by (simp add: setTtl_fixed)
    moreover from False have "setTtl out a = a\<lparr>ttl := Some out\<rparr>" by (simp add: setTtl_def)
    ultimately show ?thesis using False Cons by simp
  qed
qed

lemma updateTtl_char:
  "updateTtl p e w =
     (if e < now_of w then ((False, p), tick w)
      else ((map (setTtl (max ((e - now_of w) div 1000) ttlGraceSec)) (answers p) \<noteq> answers p,
             p\<lparr>answers := map (setTtl (max ((e - now_of w) div 1000) ttlGraceSec)) (answers p)\<rparr>),
            tick w))"
  by (simp add: updateTtl_def Date_now_def updateTtl_loop_map Let_def)

text \<open>
  Claim C8. When the expiry is before the clock's reading, \<open>updateTtl\<close> returns false
  and the packet as it was. Otherwise every answer but the pseudo record gets the TTL
  \<open>max ((expiry - now) div 1000) 30\<close>, where it had another one, and the flag returned
  says whether the TTL of some record changed.
\<close>

theorem updateTtl_rewrites_ttls:
  "updateTtl p e w =
     (if e < now_of w then ((False, p), tick w)
      else
        (let remaining = max ((e - now_of w) div 1000) 30;
             as' = map (setTtl remaining) (answers p)
         in ((map ttl as' \<noteq> map ttl (answers p), p\<lparr>answers := as'\<rparr>), tick w)))"
  using updateTtl_char [of p e w] map_setTtl_changed [of "max ((e - now_of w) div 1000) 30" "answers p"]
  by (simp add: ttlGraceSec_def Let_def)

theorem updateTtl_rewrites_ttls_witness:
  "updateTtl
     \<lparr>pkt_id = 7, rcode = ''NOERROR'', questions = [\<lparr>name = ''example.com'', qtype = ''A''\<rparr>],
      answers = [\<lparr>atype = ''A'', ttl = Some 300\<rparr>, \<lparr>atype = ''OPT'', ttl = None\<rparr>,
                 \<lparr>atype = ''A'', ttl = Some 120\<rparr>]\<rparr>
     121999
     \<lparr>clock = (\<lambda>k. 1000 + int k), ticks = 0, dnsResCache = Map.empty, httpCache = None,
      waitUntil = []\<rparr>
   = ((True,
       \<lparr>pkt_id = 7, rcode = ''NOERROR'', questions = [\<lparr>name = ''example.com'', qtype = ''A''\<rparr>],
        answers = [\<lparr>atype = ''A'', ttl = Some 120\<rparr>, \<lparr>atype = ''OPT'', ttl = None\<rparr>,
                   \<lparr>atype = ''A'', ttl = Some 120\<rparr>]\<rparr>),
      \<lparr>clock = (\<lambda>k. 1000 + int k), ticks = 1, dnsResCache = Map.empty, httpCache = None,
       waitUntil = []\<rparr>)
   \<and> updateTtl
     \<lparr>pkt_id = 7, rcode = ''NOERROR'', questions = [\<lparr>name = ''example.com'', qtype = ''A''\<rparr>],
      answers = [\<lparr>atype = ''A'', ttl = Some 300\<rparr>]\<rparr>
     999
     \<lparr>clock = (\<lambda>k. 1000 + int k), ticks = 0, dnsResCache = Map.empty, httpCache = None,
      waitUntil = []\<rparr>
   = ((False,
       \<lparr>pkt_id = 7, rcode = ''NOERROR'', questions = [\<lparr>name = ''example.com'', qtype = ''A''\<rparr>],
        answers = [\<lparr>atype = ''A'', ttl = Some 300\<rparr>]\<rparr>),
      \<lparr>clock = (\<lambda>k. 1000 + int k), ticks = 1, dnsResCache = Map.empty, httpCache = None,
       waitUntil = []\<rparr>)"
  using updateTtl_rewrites_ttls
    [of "\<lparr>pkt_id = 7, rcode = ''NOERROR'', questions = [\<lparr>name = ''example.com'', qtype = ''A''\<rparr>],
      answers = [\<lparr>atype = ''A'', ttl = Some 300\<rparr>, \<lparr>atype = ''OPT'', ttl = None\<rparr>,
                 \<lparr>atype = ''A'', ttl = Some 120\<rparr>]\<rparr>" 121999
     "\<lparr>clock = (\<lambda>k. 1000 + int k), ticks = 0, dnsResCache = Map.empty, httpCache = None,
      waitUntil = []\<rparr>"]
   updateTtl_rewrites_ttls
    [of "\<lparr>pkt_id = 7, rcode = ''NOERROR'', questions = [\<lparr>name = ''example.com'', qtype = ''A''\<rparr>],
      answers = [\<lparr>atype = ''A'', ttl = Some 300\<rparr>]\<rparr>" 999
     "\<lparr>clock = (\<lambda>k. 1000 + int k), ticks = 0, dnsResCache = Map.empty, httpCache = None,
      waitUntil = []\<rparr>"]
  by (simp add: now_of_def tick_def setTtl_def optAnswer_def)

text \<open>
  Claim C9. \<open>updateTtl\<close> is idempotent: applied again with the same expiry, at the same
  reading of the clock, to the packet it has returned, it returns that packet
  unchanged and reports no change.
\<close>

theorem updateTtl_idempotent:
  "now_of w' = now_of w \<Longrightarrow>
   fst (updateTtl (snd (fst (updateTtl p e w))) e w') = (False, snd (fst (updateTtl p e w)))"
  by (simp add: updateTtl_char setTtl_idem)

theorem updateTtl_idempotent_witness:
  "now_of \<lparr>clock = (\<lambda>k. 1000), ticks = 1, dnsResCache = Map.empty, httpCache = None,
      waitUntil = []\<rparr>
   = now_of \<lparr>clock = (\<lambda>k. 1000), ticks = 0, dnsResCache = Map.empty, httpCache = None,
      waitUntil = []\<rparr>
   \<and> fst (updateTtl
     \<lparr>pkt_id = 7, rcode = ''NOERROR'', questions = [\<lparr>name = ''example.com'', qtype = ''A''\<rparr>],
      answers = [\<lparr>atype = ''A'', ttl = Some 300\<rparr>, \<lparr>atype = ''OPT'', ttl = None\<rparr>,
                 \<lparr>atype = ''A'', ttl = Some 120\<rparr>]\<rparr>
     121999
     \<lparr>clock = (\<lambda>k. 1000), ticks = 0, dnsResCache = Map.empty, httpCache = None,
      waitUntil = []\<rparr>)
   = (True,
       \<lparr>pkt_id = 7, rcode = ''NOERROR'', questions = [\<lparr>name = ''example.com'', qtype = ''A''\<rparr>],
        answers = [\<lparr>atype = ''A'', ttl = Some 120\<rparr>, \<lparr>atype = ''OPT'', ttl = None\<rparr>,
                   \<lparr>atype = ''A'', ttl = Some 120\<rparr>]\<rparr>)
   \<and> fst (updateTtl
       \<lparr>pkt_id = 7, rcode = ''NOERROR'', questions = [\<lparr>name = ''example.com'', qtype = ''A''\<rparr>],
        answers = [\<lparr>atype = ''A'', ttl = Some 120\<rparr>, \<lparr>atype = ''OPT'', ttl = None\<rparr>,
                   \<lparr>atype = ''A'', ttl = Some 120\<rparr>]\<rparr>
     121999
     \<lparr>clock = (\<lambda>k. 1000), ticks = 1, dnsResCache = Map.empty, httpCache = None,
      waitUntil = []\<rparr>)
   = (False,
       \<lparr>pkt_id = 7, rcode = ''NOERROR'', questions = [\<lparr>name = ''example.com'', qtype = ''A''\<rparr>],
        answers = [\<lparr>atype = ''A'', ttl = Some 120\<rparr>, \<lparr>atype = ''OPT'', ttl = None\<rparr>,
                   \<lparr>atype = ''A'', ttl = Some 120\<rparr>]\<rparr>)"
proof -
  have same: "now_of \<lparr>clock = (\<lambda>k. 1000), ticks = 1, dnsResCache = Map.empty, httpCache = None,
      waitUntil = []\<rparr>
   = now_of \<lparr>clock = (\<lambda>k. 1000), ticks = 0, dnsResCache = Map.empty, httpCache = None,
      waitUntil = []\<rparr>"
    by (simp add: now_of_def)
  have once: "fst (updateTtl
     \<lparr>pkt_id = 7, rcode = ''NOERROR'', questions = [\<lparr>name = ''example.com'', qtype = ''A''\<rparr>],
      answers = [\<lparr>atype = ''A'', ttl = Some 300\<rparr>, \<lparr>atype = ''OPT'', ttl = None\<rparr>,
                 \<lparr>atype = ''A'', ttl = Some 120\<rparr>]\<rparr>
     121999
     \<lparr>clock = (\<lambda>k. 1000), ticks = 0, dnsResCache = Map.empty, httpCache = None,
      waitUntil = []\<rparr>)
   = (True,
       \<lparr>pkt_id = 7, rcode = ''NOERROR'', questions = [\<lparr>name = ''example.com'', qtype = ''A''\<rparr>],
        answers = [\<lparr>atype = ''A'', ttl = Some 120\<rparr>, \<lparr>atype = ''OPT'', ttl = None\<rparr>,
                   \<lparr>atype = ''A'', ttl = Some 120\<rparr>]\<rparr>)"
    by (simp add: updateTtl_def Date_now_def now_of_def tick_def optAnswer_def ttlGraceSec_def)
  show ?thesis
    using same once updateTtl_idempotent [OF same,
      of "\<lparr>pkt_id = 7, rcode = ''NOERROR'', questions = [\<lparr>name = ''example.com'', qtype = ''A''\<rparr>],
      answers = [\<lparr>atype = ''A'', ttl = Some 300\<rparr>, \<lparr>atype = ''OPT'', ttl = None\<rparr>,
                 \<lparr>atype = ''A'', ttl = Some 120\<rparr>]\<rparr>" 121999]
    by simp
qed

subsection \<open>What the steps leave unchanged\<close>

lemma sameButTicks_refl: "sameButTicks w w"
  by (simp add: sameButTicks_def)

lemma sameButTicks_tick: "sameButTicks w w' \<Longrightarrow> sameButTicks w (tick w')"
  by (simp add: sameButTicks_def tick_def)

lemma determineCacheExpiry_frame:
  "sameButTicks w w1 \<Longrightarrow> sameButTicks w (snd (determineCacheExpiry p w1))"
  by (simp add: determineCacheExpiry_def Let_def Date_now_def sameButTicks_tick)

lemma updateTtl_world: "snd (updateTtl p x w) = tick w"
  by (simp add: updateTtl_def Date_now_def Let_def split: prod.splits)

lemma makeCacheResponse_frame:
  "sameButTicks w (snd (makeCacheResponse e qid pkt expiry w))"
proof (cases expiry)
  case None
  show ?thesis
  proof (cases "Decode e pkt")
    case n: None
    with None show ?thesis by (simp add: makeCacheResponse_def sameButTicks_refl)
  next
    case (Some d)
    have "sameButTicks w (tick (snd (determineCacheExpiry d w)))"
      by (simp add: sameButTicks_tick determineCacheExpiry_frame sameButTicks_refl)
    with None Some show ?thesis
      by (simp add: makeCacheResponse_def split_beta Let_def updateTtl_world split: option.splits)
  qed
next
  case (Some x)
  have "sameButTicks w (tick w)" "sameButTicks w (tick (tick w))"
    by (simp_all add: sameButTicks_tick sameButTicks_refl)
  with Some show ?thesis
    by (simp add: makeCacheResponse_def split_beta Let_def updateTtl_world Date_now_def
        split: option.splits)
qed


lemma cacheKey_nonempty: "cacheKey p = Some k \<Longrightarrow> k \<noteq> []"
  by (auto simp: cacheKey_def Let_def split: if_splits)

lemma resolveFromLocalCache_frame:
  "sameButTicks w (snd (resolveFromLocalCache e qid key w))"
  by (simp add: resolveFromLocalCache_def makeCacheResponse_frame sameButTicks_refl
      split: option.splits)

lemma resolveFromHttpCache_frame:
  "sameButTicks w (snd (resolveFromHttpCache e qid url key w))"
  by (simp add: resolveFromHttpCache_def makeCacheResponse_frame sameButTicks_refl split_beta
      split: option.splits)

lemma updateLocalCacheIfNeeded_None: "updateLocalCacheIfNeeded k None w = w"
  by (simp add: updateLocalCacheIfNeeded_def split: option.splits)

lemma sameButTicks_trans: "sameButTicks w w1 \<Longrightarrow> sameButTicks w1 w2 \<Longrightarrow> sameButTicks w w2"
  by (simp add: sameButTicks_def)

lemma resolveFromCache_miss_frame:
  assumes "fst (resolveFromCache e prm w) = Inr None"
  shows "sameButTicks w (snd (resolveFromCache e prm w))"
proof (cases "cacheKey (requestDecodedDnsPacket prm)")
  case None
  then show ?thesis by (simp add: resolveFromCache_def sameButTicks_refl)
next
  case (Some k)
  then have ne: "k \<noteq> []" by (rule cacheKey_nonempty)
  let ?q = "pkt_id (requestDecodedDnsPacket prm)"
  let ?l = "resolveFromLocalCache e ?q k w"
  let ?h = "resolveFromHttpCache e ?q (request_url prm) k (snd ?l)"
  have fr: "sameButTicks w (snd ?h)"
    using resolveFromLocalCache_frame resolveFromHttpCache_frame by (rule sameButTicks_trans)
  show ?thesis
  proof (cases "fst ?l")
    case (Some cr)
    with assms \<open>cacheKey (requestDecodedDnsPacket prm) = Some k\<close> ne show ?thesis
      by (simp add: resolveFromCache_def split_beta Let_def)
  next
    case None
    show ?thesis
    proof (cases "fst ?h")
      case (Inl err)
      with assms None \<open>cacheKey (requestDecodedDnsPacket prm) = Some k\<close> ne show ?thesis
        by (simp add: resolveFromCache_def split_beta Let_def split: sum.splits prod.splits)
    next
      case (Inr r)
      with assms None \<open>cacheKey (requestDecodedDnsPacket prm) = Some k\<close> ne
      have "r = None"
        by (auto simp: resolveFromCache_def split_beta Let_def split: sum.splits prod.splits)
      with Inr None \<open>cacheKey (requestDecodedDnsPacket prm) = Some k\<close> ne fr show ?thesis
        by (auto simp: resolveFromCache_def split_beta Let_def updateLocalCacheIfNeeded_None
            split: sum.splits prod.splits)
    qed
  qed
qed

lemma upstreamQuery_frame: "sameButTicks w (snd (upstreamQuery e prm up w))"
  by (simp add: upstreamQuery_def makeCacheResponse_frame sameButTicks_refl split_beta Let_def
      split: upstream.splits option.splits)

lemma httpCacheHeaders_fails:
  "httpCacheHeaders cr blFilter = Inl (TypeError ''this.httpCacheMetadata is not a function'')"
  by (simp add: httpCacheHeaders_def DNSResolver_members_def)

lemma updateHttpCacheIfNeeded_world: "snd (updateHttpCacheIfNeeded e prm k v w) = w"
  by (simp add: updateHttpCacheIfNeeded_def httpCacheHeaders_fails Let_def
      split: option.splits)

lemma updateCachesIfNeeded_None: "updateCachesIfNeeded e prm None w = (None, w)"
  by (simp add: updateCachesIfNeeded_def)

lemma resolveFromCache_steps:
  assumes refl: "\<And>a. R a a"
    and trans: "\<And>a b c. R a b \<Longrightarrow> R b c \<Longrightarrow> R a c"
    and ticks: "\<And>a b. sameButTicks a b \<Longrightarrow> R a b"
    and loc: "\<And>k v a. R a (updateLocalCacheIfNeeded k v a)"
  shows "R w (snd (resolveFromCache e prm w))"
proof (cases "cacheKey (requestDecodedDnsPacket prm)")
  case None
  then show ?thesis by (simp add: resolveFromCache_def refl)
next
  case (Some k)
  then have ne: "k \<noteq> []" by (rule cacheKey_nonempty)
  let ?q = "pkt_id (requestDecodedDnsPacket prm)"
  let ?l = "resolveFromLocalCache e ?q k w"
  let ?h = "resolveFromHttpCache e ?q (request_url prm) k (snd ?l)"
  have l: "R w (snd ?l)"
    by (simp add: ticks resolveFromLocalCache_frame)
  have "R (snd ?l) (snd ?h)"
    by (simp add: ticks resolveFromHttpCache_frame)
  with l have h: "R w (snd ?h)"
    by (rule trans)
  have u: "R w (updateLocalCacheIfNeeded (Some k) r (snd ?h))" for r
    using h loc by (rule trans)
  show ?thesis
    using Some ne l h u
    by (simp add: resolveFromCache_def Let_def split_beta split: option.splits sum.splits)
qed

lemma updateCachesIfNeeded_steps:
  assumes refl: "\<And>a. R a a"
    and trans: "\<And>a b c. R a b \<Longrightarrow> R b c \<Longrightarrow> R a c"
    and loc: "\<And>k v a. R a (updateLocalCacheIfNeeded k v a)"
    and edge: "\<And>k v a. R a (snd (updateHttpCacheIfNeeded e prm k v a))"
  shows "R w (snd (updateCachesIfNeeded e prm v w))"
proof -
  have "R w (snd (updateHttpCacheIfNeeded e prm k v (updateLocalCacheIfNeeded k v w)))" for k
    using loc edge by (rule trans)
  then show ?thesis
    by (simp add: updateCachesIfNeeded_def refl Let_def split: option.splits)
qed

lemma resolveRequest_steps:
  assumes refl: "\<And>a. R a a"
    and trans: "\<And>a b c. R a b \<Longrightarrow> R b c \<Longrightarrow> R a c"
    and ticks: "\<And>a b. sameButTicks a b \<Longrightarrow> R a b"
    and loc: "\<And>k v a. R a (updateLocalCacheIfNeeded k v a)"
    and edge: "\<And>k v a. R a (snd (updateHttpCacheIfNeeded e prm k v a))"
  shows "R w (snd (resolveRequest e prm up w))"
proof -
  let ?c = "resolveFromCache e prm w"
  let ?u = "upstreamQuery e prm up (snd ?c)"
  have c: "R w (snd ?c)"
    using refl trans ticks loc by (rule resolveFromCache_steps)
  have "R (snd ?c) (snd ?u)"
    by (simp add: ticks upstreamQuery_frame)
  with c have u: "R w (snd ?u)"
    by (rule trans)
  have "R (snd ?u) (snd (updateCachesIfNeeded e prm v (snd ?u)))" for v
    using refl trans loc edge by (rule updateCachesIfNeeded_steps)
  with u have p: "R w (snd (updateCachesIfNeeded e prm v (snd ?u)))" for v
    by (rule trans)
  show ?thesis
    using c u p
    by (simp add: resolveRequest_def Let_def split_beta split: option.splits sum.splits)
qed

lemma addsOnlyExpiring_resolveRequest:
  "addsOnlyExpiring w (snd (resolveRequest e prm up w))"
proof (rule resolveRequest_steps)
  show "addsOnlyExpiring a a" for a
    by (simp add: addsOnlyExpiring_def)
  show "addsOnlyExpiring a b \<Longrightarrow> addsOnlyExpiring b c \<Longrightarrow> addsOnlyExpiring a c" for a b c
    unfolding addsOnlyExpiring_def by metis
  show "sameButTicks a b \<Longrightarrow> addsOnlyExpiring a b" for a b
    by (simp add: addsOnlyExpiring_def sameButTicks_def)
  show "addsOnlyExpiring a (updateLocalCacheIfNeeded k v a)" for k v a
    by (auto simp: addsOnlyExpiring_def updateLocalCacheIfNeeded_def LocalCache_Put_def
        noExpiry_def Let_def split: option.splits if_splits)
  show "addsOnlyExpiring a (snd (updateHttpCacheIfNeeded e prm k v a))" for k v a
    by (simp add: addsOnlyExpiring_def updateHttpCacheIfNeeded_def Let_def
        split: option.splits sum.splits)
qed

lemma waitUntil_resolveRequest:
  "waitUntil (snd (resolveRequest e prm up w)) = waitUntil w"
proof (rule resolveRequest_steps [where R = "\<lambda>a b. waitUntil b = waitUntil a"])
  show "sameButTicks a b \<Longrightarrow> waitUntil b = waitUntil a" for a b
    by (simp add: sameButTicks_def)
  show "waitUntil (updateLocalCacheIfNeeded k v a) = waitUntil a" for k v a
    by (simp add: updateLocalCacheIfNeeded_def Let_def split: option.splits)
  show "waitUntil (snd (updateHttpCacheIfNeeded e prm k v a)) = waitUntil a" for k v a
    by (simp add: updateHttpCacheIfNeeded_world)
qed simp_all

subsection \<open>Misses and fall-through\<close>

lemma makeCacheResponse_stale:
  "x < now_of w \<Longrightarrow> makeCacheResponse e qid pkt (Some x) w = (None, tick w)"
  by (simp add: makeCacheResponse_def Date_now_def)

lemma makeCacheResponse_undecodable:
  "Decode e pkt = None \<Longrightarrow> fst (makeCacheResponse e qid pkt expiry w) = None"
  by (simp add: makeCacheResponse_def Date_now_def Let_def split: option.splits prod.splits)

lemma resolveFromLocalCache_stale:
  "dnsResCache w key = Some ent \<Longrightarrow> ttlEndTime ent = Some x \<Longrightarrow> x < now_of w \<Longrightarrow>
   resolveFromLocalCache e qid key w = (None, tick w)"
  by (simp add: resolveFromLocalCache_def LocalCache_Get_def makeCacheResponse_stale)

lemma resolveFromHttpCache_stale:
  "httpCache w = Some hc \<Longrightarrow> hc (httpCacheKey e url key) = Some resp \<Longrightarrow>
   x_rethink_metadata resp = Some md \<Longrightarrow> meta_ttlEndTime md = Some x \<Longrightarrow> x < now_of w \<Longrightarrow>
   resolveFromHttpCache e qid url key w = (Inr None, tick w)"
  by (simp add: resolveFromHttpCache_def makeCacheResponse_stale)

lemma resolveFromCache_local_miss:
  "cacheKey (requestDecodedDnsPacket prm) = Some k \<Longrightarrow>
   resolveFromLocalCache e (pkt_id (requestDecodedDnsPacket prm)) k w = (None, w1) \<Longrightarrow>
   resolveFromCache e prm w =
     (case resolveFromHttpCache e (pkt_id (requestDecodedDnsPacket prm)) (request_url prm) k w1 of
        (Inl err, w2) \<Rightarrow> (Inl err, w2)
      | (Inr r, w2) \<Rightarrow> (Inr r, updateLocalCacheIfNeeded (Some k) r w2))"
  by (simp add: resolveFromCache_def Let_def cacheKey_nonempty)

lemma resolveFromCache_afterLocalMiss:
  "cacheKey (requestDecodedDnsPacket prm) = Some k \<Longrightarrow>
   resolveFromLocalCache e (pkt_id (requestDecodedDnsPacket prm)) k w = (None, w1) \<Longrightarrow>
   resolveFromCache e prm w = afterLocalMiss e prm k w1"
  by (simp add: resolveFromCache_local_miss afterLocalMiss_def)

lemma resolveRequest_afterCacheMiss:
  "resolveFromCache e prm w = (Inr None, w1) \<Longrightarrow>
   resolveRequest e prm up w = afterCacheMiss e prm up w1"
  by (simp add: resolveRequest_def afterCacheMiss_def)

lemma afterLocalMiss_stale:
  "httpCache w = Some hc \<Longrightarrow> hc (httpCacheKey e (request_url prm) k) = Some resp \<Longrightarrow>
   x_rethink_metadata resp = Some md \<Longrightarrow> meta_ttlEndTime md = Some x \<Longrightarrow> x < now_of w \<Longrightarrow>
   afterLocalMiss e prm k w = (Inr None, tick w)"
  by (simp add: afterLocalMiss_def resolveFromHttpCache_stale updateLocalCacheIfNeeded_None)

lemma upstreamQuery_undersized:
  "length (arrayBuffer r) < minDNSPacketSize e \<Longrightarrow>
   upstreamQuery e prm (Resolves (Some r)) w =
     (Inl (if ok r then Error ''inadequate response from upstream''
           else HttpErr (status r) (statusText r)), w)"
  by (simp add: upstreamQuery_def validResponseSize_def)

lemma upstreamQuery_undecodable:
  "ok r \<Longrightarrow> validResponseSize (minDNSPacketSize e) (arrayBuffer r) \<Longrightarrow>
   Decode e (arrayBuffer r) = None \<Longrightarrow>
   upstreamQuery e prm (Resolves (Some r)) w = (Inr None, w)"
  by (simp add: upstreamQuery_def makeCacheResponse_def)

subsection \<open>The examples, evaluated\<close>

lemma ex_cacheKey: "cacheKey (requestDecodedDnsPacket exParam) = Some exKey"
  by (simp add: exParam_def exQuery_def exKey_def cacheKey_def trim_def toLowerCase_def
      isSpace_def lowerChar_def)

lemma ex_httpCacheKey:
  "httpCacheKey exEnv (request_url exParam) exKey = ''https://dns.example/example.com:A''"
  by (simp add: httpCacheKey_def exEnv_def exKey_def)

lemma ex_makeCacheResponse_fresh:
  "clock w = (\<lambda>k. 1000 + int k) \<Longrightarrow>
   makeCacheResponse exEnv 7 (exBytes 300) None w =
     (Some (exFresh (331000 + int (ticks w))), tick (tick w))"
  by (simp add: makeCacheResponse_def exEnv_def exAnswer_def exFresh_def
      determineCacheExpiry_def rcodeNoError_def hasAnswers_def ttl_or_def highTtl_def
      ttlGraceSec_def Date_now_def now_of_def tick_def updateTtl_def optAnswer_def
      updateQueryId_def)

lemma ex_makeCacheResponse_nx:
  "clock w = (\<lambda>k. 1000 + int k) \<Longrightarrow>
   makeCacheResponse exEnv 7 (exBytes 0) None w =
     (Some \<lparr>dnsPacket = exBytes 0, ttlEndTime = Some 0, decodedDnsPacket = exNx\<rparr>, tick w)"
  by (simp add: makeCacheResponse_def exEnv_def exNx_def exBytes_def
      determineCacheExpiry_def rcodeNoError_def Date_now_def now_of_def tick_def
      updateTtl_def updateQueryId_def)

lemma ex_resolveFromCache_empty:
  "dnsResCache w exKey = None \<Longrightarrow> httpCache w = Some Map.empty \<Longrightarrow>
   resolveFromCache e exParam w = (Inr None, w)"
  by (simp add: resolveFromCache_def ex_cacheKey resolveFromLocalCache_def LocalCache_Get_def
      resolveFromHttpCache_def updateLocalCacheIfNeeded_None exKey_def)

lemma ex_validResponseSize: "validResponseSize (minDNSPacketSize exEnv) (exBytes t)"
  by (simp add: validResponseSize_def exEnv_def exBytes_def)

lemma ex_upstreamQuery_fresh:
  "clock w = (\<lambda>k. 1000 + int k) \<Longrightarrow>
   upstreamQuery exEnv exParam (exUpOf (exBytes 300)) w
     = (Inr (Some (exFresh (331000 + int (ticks w)))), tick (tick w))"
  by (simp add: upstreamQuery_def exUpOf_def ex_validResponseSize ex_makeCacheResponse_fresh
      exParam_def exQuery_def)

lemma ex_updateCaches_fresh:
  "httpCache w = Some hc \<Longrightarrow>
   snd (updateCachesIfNeeded e exParam (Some (exFresh 331000)) w)
     = w\<lparr>dnsResCache := (dnsResCache w)
           (exKey \<mapsto> \<lparr>dnsPacket = exBytes 329, ttlEndTime = Some 331000\<rparr>)\<rparr>"
  by (simp add: updateCachesIfNeeded_def ex_cacheKey updateHttpCacheIfNeeded_world
      updateLocalCacheIfNeeded_def LocalCache_Put_def exFresh_def exKey_def)

lemma ex_resolveFromCache_edge:
  "resolveFromCache exEnv exParam exEdgeWorld = (Inr None, exEdgeWorld)"
  by (rule ex_resolveFromCache_empty) (simp_all add: exEdgeWorld_def exWorld_def)

lemma ex_resolveRequest_fresh:
  "resolveRequest exEnv exParam (exUpOf (exBytes 300)) exEdgeWorld
     = (Inr \<lparr>responseBodyBuffer = exBytes 329,
             responseDecodedDnsPacket = exAnswer\<lparr>answers := [\<lparr>atype = ''A'', ttl = Some 329\<rparr>]\<rparr>\<rparr>,
        (tick (tick exEdgeWorld))
          \<lparr>dnsResCache := [exKey \<mapsto> \<lparr>dnsPacket = exBytes 329, ttlEndTime = Some 331000\<rparr>]\<rparr>)"
proof -
  have c: "resolveFromCache exEnv exParam exEdgeWorld = (Inr None, exEdgeWorld)"
    by (rule ex_resolveFromCache_empty) (simp_all add: exEdgeWorld_def exWorld_def)
  have u: "upstreamQuery exEnv exParam (exUpOf (exBytes 300)) exEdgeWorld
           = (Inr (Some (exFresh 331000)), tick (tick exEdgeWorld))"
    using ex_upstreamQuery_fresh [of exEdgeWorld]
    by (simp add: exEdgeWorld_def exWorld_def)
  have p: "snd (updateCachesIfNeeded exEnv exParam (Some (exFresh 331000)) (tick (tick exEdgeWorld)))
           = (tick (tick exEdgeWorld))
               \<lparr>dnsResCache := [exKey \<mapsto> \<lparr>dnsPacket = exBytes 329, ttlEndTime = Some 331000\<rparr>]\<rparr>"
    using ex_updateCaches_fresh [of "tick (tick exEdgeWorld)" Map.empty exEnv]
    by (simp add: exEdgeWorld_def exWorld_def tick_def)
  show ?thesis
    using c u p
    by (simp add: resolveRequest_afterCacheMiss afterCacheMiss_def exFresh_def)
qed

lemma ex_resolveRequest_nx:
  "resolveRequest exEnv exParam (exUpOf (exBytes 0)) exEdgeWorld
     = (Inr \<lparr>responseBodyBuffer = exBytes 0, responseDecodedDnsPacket = exNx\<rparr>,
        tick exEdgeWorld)"
proof -
  have u: "upstreamQuery exEnv exParam (exUpOf (exBytes 0)) exEdgeWorld
           = (Inr (Some \<lparr>dnsPacket = exBytes 0, ttlEndTime = Some 0, decodedDnsPacket = exNx\<rparr>),
              tick exEdgeWorld)"
    using ex_makeCacheResponse_nx [of exEdgeWorld]
    by (simp add: upstreamQuery_def exUpOf_def ex_validResponseSize exParam_def exQuery_def
        exEdgeWorld_def exWorld_def)
  have p: "snd (updateCachesIfNeeded exEnv exParam
                 (Some \<lparr>dnsPacket = exBytes 0, ttlEndTime = Some 0, decodedDnsPacket = exNx\<rparr>)
                 (tick exEdgeWorld)) = tick exEdgeWorld"
    by (simp add: updateCachesIfNeeded_def ex_cacheKey updateHttpCacheIfNeeded_world
        updateLocalCacheIfNeeded_def)
  show ?thesis
    using ex_resolveFromCache_edge u p
    by (simp add: resolveRequest_afterCacheMiss afterCacheMiss_def)
qed

lemma ex_afterCacheMiss_fresh:
  "clock w = (\<lambda>k. 1000 + int k) \<Longrightarrow>
   fst (afterCacheMiss exEnv exParam (exUpOf (exBytes 300)) w)
     = Inr \<lparr>responseBodyBuffer = exBytes 329,
            responseDecodedDnsPacket = exAnswer\<lparr>answers := [\<lparr>atype = ''A'', ttl = Some 329\<rparr>]\<rparr>\<rparr>"
  by (simp add: afterCacheMiss_def ex_upstreamQuery_fresh exFresh_def)

lemma ex_Decode_garbled: "Decode exEnv (exBytes 1) = None"
  by (simp add: exEnv_def exBytes_def)

subsection \<open>The claims about the two cache tiers\<close>

text \<open>
  Claim C3. An entry whose stored \<open>ttlEndTime\<close> is before the reading of the clock is
  a miss: \<open>makeCacheResponse\<close> returns the falsy value, so do the lookups of the local
  and of the edge tier, \<open>resolveFromCache\<close> goes on with the edge tier, and when the
  edge entry is stale as well \<open>resolveRequest\<close> goes on with the upstream query. The
  last two parts say what the code does on a plain miss: the same, but for the readings
  of the clock.
\<close>

theorem stale_entry_is_a_miss:
  "(x < now_of w \<longrightarrow>
     makeCacheResponse e qid pkt (Some x) w = (None, tick w)
   \<and> (dnsResCache w k = Some ent \<and> ttlEndTime ent = Some x \<longrightarrow>
        resolveFromLocalCache e qid k w = (None, tick w))
   \<and> (httpCache w = Some hc \<and> hc (httpCacheKey e url k) = Some resp
        \<and> x_rethink_metadata resp = Some md \<and> meta_ttlEndTime md = Some x \<longrightarrow>
        resolveFromHttpCache e qid url k w = (Inr None, tick w))
   \<and> (cacheKey (requestDecodedDnsPacket prm) = Some k
        \<and> dnsResCache w k = Some ent \<and> ttlEndTime ent = Some x \<longrightarrow>
        resolveFromCache e prm w = afterLocalMiss e prm k (tick w))
   \<and> (cacheKey (requestDecodedDnsPacket prm) = Some k
        \<and> dnsResCache w k = Some ent \<and> ttlEndTime ent = Some x
        \<and> httpCache w = Some hc \<and> hc (httpCacheKey e (request_url prm) k) = Some resp
        \<and> x_rethink_metadata resp = Some md \<and> meta_ttlEndTime md = Some x'
        \<and> x' < now_of (tick w) \<longrightarrow>
        resolveRequest e prm up w = afterCacheMiss e prm up (tick (tick w))))
   \<and> (cacheKey (requestDecodedDnsPacket prm) = Some k \<and> dnsResCache w k = None \<longrightarrow>
        resolveFromLocalCache e qid k w = (None, w)
        \<and> resolveFromCache e prm w = afterLocalMiss e prm k w)
   \<and> (resolveFromCache e prm w = (Inr None, w') \<longrightarrow>
        resolveRequest e prm up w = afterCacheMiss e prm up w')"
proof (intro impI conjI)
  {
    assume a: "cacheKey (requestDecodedDnsPacket prm) = Some k \<and> dnsResCache w k = None"
    then show l: "resolveFromLocalCache e qid k w = (None, w)" for qid
      by (simp add: resolveFromLocalCache_def LocalCache_Get_def)
    from a l show "resolveFromCache e prm w = afterLocalMiss e prm k w"
      by (simp add: resolveFromCache_afterLocalMiss)
  }
  {
    assume "resolveFromCache e prm w = (Inr None, w')"
    then show "resolveRequest e prm up w = afterCacheMiss e prm up w'"
      by (rule resolveRequest_afterCacheMiss)
  }
  assume st: "x < now_of w"
  show "makeCacheResponse e qid pkt (Some x) w = (None, tick w)"
    using st by (rule makeCacheResponse_stale)
  {
    assume "dnsResCache w k = Some ent \<and> ttlEndTime ent = Some x"
    with st show "resolveFromLocalCache e qid k w = (None, tick w)"
      by (simp add: resolveFromLocalCache_stale)
  }
  {
    assume "httpCache w = Some hc \<and> hc (httpCacheKey e url k) = Some resp
        \<and> x_rethink_metadata resp = Some md \<and> meta_ttlEndTime md = Some x"
    with st show "resolveFromHttpCache e qid url k w = (Inr None, tick w)"
      by (simp add: resolveFromHttpCache_stale)
  }
  {
    assume "cacheKey (requestDecodedDnsPacket prm) = Some k
        \<and> dnsResCache w k = Some ent \<and> ttlEndTime ent = Some x"
    with st show "resolveFromCache e prm w = afterLocalMiss e prm k (tick w)"
      by (simp add: resolveFromCache_afterLocalMiss resolveFromLocalCache_stale)
  }
  {
    assume a: "cacheKey (requestDecodedDnsPacket prm) = Some k
        \<and> dnsResCache w k = Some ent \<and> ttlEndTime ent = Some x
        \<and> httpCache w = Some hc \<and> hc (httpCacheKey e (request_url prm) k) = Some resp
        \<and> x_rethink_metadata resp = Some md \<and> meta_ttlEndTime md = Some x'
        \<and> x' < now_of (tick w)"
    with st have "resolveFromCache e prm w = afterLocalMiss e prm k (tick w)"
      by (simp add: resolveFromCache_afterLocalMiss resolveFromLocalCache_stale)
    moreover from a have "afterLocalMiss e prm k (tick w) = (Inr None, tick (tick w))"
      by (intro afterLocalMiss_stale [where hc = hc and resp = resp and md = md and x = x'])
         (simp_all add: tick_def)
    ultimately show "resolveRequest e prm up w = afterCacheMiss e prm up (tick (tick w))"
      by (simp add: resolveRequest_afterCacheMiss)
  }
qed

theorem stale_entry_is_a_miss_witness:
  "500 < now_of exStaleWorld
   \<and> cacheKey (requestDecodedDnsPacket exParam) = Some exKey
   \<and> dnsResCache exStaleWorld exKey = Some exStale
   \<and> ttlEndTime exStale = Some 500
   \<and> httpCache exStaleWorld = Some [''https://dns.example/example.com:A'' \<mapsto> exResp 500]
   \<and> httpCacheKey exEnv (request_url exParam) exKey = ''https://dns.example/example.com:A''
   \<and> x_rethink_metadata (exResp 500) = Some (exMeta 500)
   \<and> meta_ttlEndTime (exMeta 500) = Some 500
   \<and> 500 < now_of (tick exStaleWorld)
   \<and> makeCacheResponse exEnv 7 (exBytes 300) (Some 500) exStaleWorld = (None, tick exStaleWorld)
   \<and> resolveFromLocalCache exEnv 7 exKey exStaleWorld = (None, tick exStaleWorld)
   \<and> resolveFromHttpCache exEnv 7 (request_url exParam) exKey exStaleWorld
       = (Inr None, tick exStaleWorld)
   \<and> resolveFromCache exEnv exParam exStaleWorld
       = afterLocalMiss exEnv exParam exKey (tick exStaleWorld)
   \<and> resolveRequest exEnv exParam (exUpOf (exBytes 300)) exStaleWorld
       = afterCacheMiss exEnv exParam (exUpOf (exBytes 300)) (tick (tick exStaleWorld))
   \<and> fst (resolveRequest exEnv exParam (exUpOf (exBytes 300)) exStaleWorld)
       = Inr \<lparr>responseBodyBuffer = exBytes 329,
              responseDecodedDnsPacket = exAnswer\<lparr>answers := [\<lparr>atype = ''A'', ttl = Some 329\<rparr>]\<rparr>\<rparr>
   \<and> dnsResCache exEdgeWorld exKey = None
   \<and> resolveFromLocalCache exEnv 7 exKey exEdgeWorld = (None, exEdgeWorld)
   \<and> resolveFromCache exEnv exParam exEdgeWorld = afterLocalMiss exEnv exParam exKey exEdgeWorld
   \<and> resolveFromCache exEnv exParam exEdgeWorld = (Inr None, exEdgeWorld)
   \<and> resolveRequest exEnv exParam (exUpOf (exBytes 300)) exEdgeWorld
       = afterCacheMiss exEnv exParam (exUpOf (exBytes 300)) exEdgeWorld"
proof -
  have h0: "dnsResCache exEdgeWorld exKey = None"
    by (simp add: exEdgeWorld_def exWorld_def)
  have h1: "500 < now_of exStaleWorld"
    by (simp add: exStaleWorld_def exWorld_def now_of_def)
  have h2: "dnsResCache exStaleWorld exKey = Some exStale"
    by (simp add: exStaleWorld_def exWorld_def)
  have h3: "ttlEndTime exStale = Some 500"
    by (simp add: exStale_def)
  have h4: "httpCache exStaleWorld = Some [''https://dns.example/example.com:A'' \<mapsto> exResp 500]"
    by (simp add: exStaleWorld_def exWorld_def)
  have h5: "[''https://dns.example/example.com:A'' \<mapsto> exResp 500]
              (httpCacheKey exEnv (request_url exParam) exKey) = Some (exResp 500)"
    by (simp add: ex_httpCacheKey)
  have h6: "x_rethink_metadata (exResp 500) = Some (exMeta 500)"
    by (simp add: exResp_def)
  have h7: "meta_ttlEndTime (exMeta 500) = Some 500"
    by (simp add: exMeta_def)
  have h8: "500 < now_of (tick exStaleWorld)"
    by (simp add: exStaleWorld_def exWorld_def now_of_def tick_def)
  have h9: "fst (afterCacheMiss exEnv exParam (exUpOf (exBytes 300)) (tick (tick exStaleWorld)))
     = Inr \<lparr>responseBodyBuffer = exBytes 329,
            responseDecodedDnsPacket = exAnswer\<lparr>answers := [\<lparr>atype = ''A'', ttl = Some 329\<rparr>]\<rparr>\<rparr>"
    by (rule ex_afterCacheMiss_fresh) (simp add: exStaleWorld_def exWorld_def tick_def)
  show ?thesis
    using stale_entry_is_a_miss
      [of 500 exStaleWorld exEnv 7 "exBytes 300" exKey exStale
          "[''https://dns.example/example.com:A'' \<mapsto> exResp 500]"
          "request_url exParam" "exResp 500" "exMeta 500" exParam 500 "exUpOf (exBytes 300)"]
      stale_entry_is_a_miss
        [where w = exEdgeWorld and e = exEnv and prm = exParam and k = exKey and qid = 7
           and w' = exEdgeWorld and up = "exUpOf (exBytes 300)"]
      h0 h1 h2 h3 h4 h5 h6 h7 h8 h9 ex_cacheKey ex_httpCacheKey ex_resolveFromCache_edge
    by simp
qed

text \<open>
  Claim C5. When the bytes of a cache entry do not decode, \<open>makeCacheResponse\<close> returns
  the falsy value: \<open>resolveFromCache\<close> goes on with the edge tier after such a local
  entry, and \<open>resolveRequest\<close> goes on with the upstream query after such an edge
  entry. When the bytes of the upstream answer do not decode, \<open>resolveRequest\<close> throws
  and \<open>RethinkModule\<close> returns the error response.
\<close>

theorem decode_failure_miss_or_fatal:
  "Decode e pkt = None \<longrightarrow>
     fst (makeCacheResponse e qid pkt expiry w) = None
   \<and> (cacheKey (requestDecodedDnsPacket prm) = Some k
        \<and> dnsResCache w k = Some ent \<and> dnsPacket ent = pkt \<longrightarrow>
        resolveFromCache e prm w
          = afterLocalMiss e prm k
              (snd (resolveFromLocalCache e (pkt_id (requestDecodedDnsPacket prm)) k w)))
   \<and> (cacheKey (requestDecodedDnsPacket prm) = Some k \<and> dnsResCache w k = None
        \<and> httpCache w = Some hc \<and> hc (httpCacheKey e (request_url prm) k) = Some resp
        \<and> x_rethink_metadata resp = Some md \<and> body resp = pkt \<longrightarrow>
        resolveRequest e prm up w
          = afterCacheMiss e prm up
              (snd (resolveFromHttpCache e (pkt_id (requestDecodedDnsPacket prm))
                      (request_url prm) k w)))
   \<and> (fst (resolveFromCache e prm w) = Inr None
        \<and> ok r \<and> arrayBuffer r = pkt \<and> validResponseSize (minDNSPacketSize e) pkt \<longrightarrow>
        fst (resolveRequest e prm (Resolves (Some r)) w)
          = Inl (Error ''No answer from cache or upstream'')
        \<and> fst (RethinkModule e prm (Resolves (Some r)) w)
          = ErrResponse ''dnsResolver'' (Error ''No answer from cache or upstream''))"
proof (intro impI conjI)
  assume d: "Decode e pkt = None"
  show "fst (makeCacheResponse e qid pkt expiry w) = None"
    using d by (rule makeCacheResponse_undecodable)
  {
    assume a: "cacheKey (requestDecodedDnsPacket prm) = Some k
        \<and> dnsResCache w k = Some ent \<and> dnsPacket ent = pkt"
    let ?q = "pkt_id (requestDecodedDnsPacket prm)"
    from a d have "fst (resolveFromLocalCache e ?q k w) = None"
      by (simp add: resolveFromLocalCache_def LocalCache_Get_def makeCacheResponse_undecodable)
    then obtain w1 where l: "resolveFromLocalCache e ?q k w = (None, w1)"
      by (cases "resolveFromLocalCache e ?q k w") auto
    with a have "resolveFromCache e prm w = afterLocalMiss e prm k w1"
      by (simp add: resolveFromCache_afterLocalMiss)
    with l show "resolveFromCache e prm w
                 = afterLocalMiss e prm k (snd (resolveFromLocalCache e ?q k w))"
      by simp
  }
  {
    assume a: "cacheKey (requestDecodedDnsPacket prm) = Some k \<and> dnsResCache w k = None
        \<and> httpCache w = Some hc \<and> hc (httpCacheKey e (request_url prm) k) = Some resp
        \<and> x_rethink_metadata resp = Some md \<and> body resp = pkt"
    let ?q = "pkt_id (requestDecodedDnsPacket prm)"
    let ?h = "resolveFromHttpCache e ?q (request_url prm) k w"
    from a have l: "resolveFromLocalCache e ?q k w = (None, w)"
      by (simp add: resolveFromLocalCache_def LocalCache_Get_def)
    from a d have "fst ?h = Inr None"
      by (simp add: resolveFromHttpCache_def makeCacheResponse_undecodable split_beta)
    then obtain w2 where h: "?h = (Inr None, w2)"
      by (cases ?h) auto
    from a l have "resolveFromCache e prm w = afterLocalMiss e prm k w"
      by (simp add: resolveFromCache_afterLocalMiss)
    also have "\<dots> = (Inr None, snd ?h)"
      by (simp add: afterLocalMiss_def h updateLocalCacheIfNeeded_None)
    finally show "resolveRequest e prm up w = afterCacheMiss e prm up (snd ?h)"
      by (rule resolveRequest_afterCacheMiss)
  }
  {
    assume a: "fst (resolveFromCache e prm w) = Inr None
        \<and> ok r \<and> arrayBuffer r = pkt \<and> validResponseSize (minDNSPacketSize e) pkt"
    from a obtain w1 where c: "resolveFromCache e prm w = (Inr None, w1)"
      by (cases "resolveFromCache e prm w") auto
    from a d have u: "upstreamQuery e prm (Resolves (Some r)) w1 = (Inr None, w1)"
      by (simp add: upstreamQuery_undecodable)
    have rr: "resolveRequest e prm (Resolves (Some r)) w
          = (Inl (Error ''No answer from cache or upstream''), w1)"
      using c u
      by (simp add: resolveRequest_afterCacheMiss afterCacheMiss_def updateCachesIfNeeded_None)
    then show "fst (resolveRequest e prm (Resolves (Some r)) w)
          = Inl (Error ''No answer from cache or upstream'')"
      by simp
    from rr show "fst (RethinkModule e prm (Resolves (Some r)) w)
          = ErrResponse ''dnsResolver'' (Error ''No answer from cache or upstream'')"
      by (simp add: RethinkModule_def)
  }
qed

theorem decode_failure_miss_or_fatal_witness:
  "Decode exEnv (exBytes 1) = None
   \<and> cacheKey (requestDecodedDnsPacket exParam) = Some exKey
   \<and> dnsResCache exGarbledLocal exKey = Some exGarbled
   \<and> dnsPacket exGarbled = exBytes 1
   \<and> fst (makeCacheResponse exEnv 7 (exBytes 1) (Some 900000) exGarbledLocal) = None
   \<and> resolveFromCache exEnv exParam exGarbledLocal
       = afterLocalMiss exEnv exParam exKey
           (snd (resolveFromLocalCache exEnv (pkt_id (requestDecodedDnsPacket exParam)) exKey
                   exGarbledLocal))
   \<and> dnsResCache exGarbledEdge exKey = None
   \<and> httpCache exGarbledEdge = Some [''https://dns.example/example.com:A'' \<mapsto> exGarbledResp]
   \<and> x_rethink_metadata exGarbledResp = Some (exMeta 900000)
   \<and> body exGarbledResp = exBytes 1
   \<and> resolveRequest exEnv exParam (exUpOf (exBytes 300)) exGarbledEdge
       = afterCacheMiss exEnv exParam (exUpOf (exBytes 300))
           (snd (resolveFromHttpCache exEnv (pkt_id (requestDecodedDnsPacket exParam))
                   (request_url exParam) exKey exGarbledEdge))
   \<and> fst (resolveRequest exEnv exParam (exUpOf (exBytes 300)) exGarbledEdge)
       = Inr \<lparr>responseBodyBuffer = exBytes 329,
              responseDecodedDnsPacket = exAnswer\<lparr>answers := [\<lparr>atype = ''A'', ttl = Some 329\<rparr>]\<rparr>\<rparr>
   \<and> fst (resolveFromCache exEnv exParam exGarbledEdge) = Inr None
   \<and> validResponseSize (minDNSPacketSize exEnv) (exBytes 1)
   \<and> fst (resolveRequest exEnv exParam (exUpOf (exBytes 1)) exGarbledEdge)
       = Inl (Error ''No answer from cache or upstream'')
   \<and> fst (RethinkModule exEnv exParam (exUpOf (exBytes 1)) exGarbledEdge)
       = ErrResponse ''dnsResolver'' (Error ''No answer from cache or upstream'')"
proof -
  let ?q = "pkt_id (requestDecodedDnsPacket exParam)"
  let ?r = "\<lparr>ok = True, status = 200, statusText = ''OK'', arrayBuffer = exBytes 1\<rparr>"
  have h1: "dnsResCache exGarbledLocal exKey = Some exGarbled"
    by (simp add: exGarbledLocal_def exWorld_def)
  have h2: "dnsPacket exGarbled = exBytes 1"
    by (simp add: exGarbled_def)
  have h3: "dnsResCache exGarbledEdge exKey = None"
    by (simp add: exGarbledEdge_def exWorld_def)
  have h4: "httpCache exGarbledEdge
            = Some [''https://dns.example/example.com:A'' \<mapsto> exGarbledResp]"
    by (simp add: exGarbledEdge_def exWorld_def)
  have h5: "[''https://dns.example/example.com:A'' \<mapsto> exGarbledResp]
              (httpCacheKey exEnv (request_url exParam) exKey) = Some exGarbledResp"
    by (simp add: ex_httpCacheKey)
  have h6: "x_rethink_metadata exGarbledResp = Some (exMeta 900000)"
    by (simp add: exGarbledResp_def)
  have h7: "body exGarbledResp = exBytes 1"
    by (simp add: exGarbledResp_def)
  have clk: "now_of exGarbledEdge = 1000"
    by (simp add: now_of_def exGarbledEdge_def exWorld_def)
  have h8: "resolveFromHttpCache exEnv ?q (request_url exParam) exKey exGarbledEdge
            = (Inr None, tick exGarbledEdge)"
    by (simp add: resolveFromHttpCache_def h4 h5 h6 h7 exMeta_def makeCacheResponse_def
        ex_Decode_garbled Date_now_def clk ex_httpCacheKey)
  have h9: "fst (resolveFromCache exEnv exParam exGarbledEdge) = Inr None"
    using cacheKey_nonempty [OF ex_cacheKey]
    by (simp add: resolveFromCache_def ex_cacheKey resolveFromLocalCache_def LocalCache_Get_def
        h3 h8 updateLocalCacheIfNeeded_None)
  have h10: "ok ?r \<and> arrayBuffer ?r = exBytes 1"
    by simp
  have h11: "fst (afterCacheMiss exEnv exParam (exUpOf (exBytes 300)) (tick exGarbledEdge))
     = Inr \<lparr>responseBodyBuffer = exBytes 329,
            responseDecodedDnsPacket = exAnswer\<lparr>answers := [\<lparr>atype = ''A'', ttl = Some 329\<rparr>]\<rparr>\<rparr>"
    by (rule ex_afterCacheMiss_fresh) (simp add: exGarbledEdge_def exWorld_def tick_def)
  show ?thesis
    using decode_failure_miss_or_fatal
        [where e = exEnv and pkt = "exBytes 1" and qid = 7 and expiry = "Some 900000"
           and w = exGarbledLocal and prm = exParam and k = exKey and ent = exGarbled]
      decode_failure_miss_or_fatal
        [where e = exEnv and pkt = "exBytes 1" and w = exGarbledEdge and prm = exParam
           and k = exKey and hc = "[''https://dns.example/example.com:A'' \<mapsto> exGarbledResp]"
           and resp = exGarbledResp and md = "exMeta 900000" and up = "exUpOf (exBytes 300)"
           and r = ?r]
      ex_Decode_garbled ex_cacheKey ex_validResponseSize [of 1] h1 h2 h3 h4 h5 h6 h7 h8 h9 h10 h11
    by (simp add: exUpOf_def)
qed

text \<open>
  Claim C6. When the caches have given nothing and the body of the upstream response
  is shorter than the minimum DNS message size, \<open>resolveRequest\<close> throws,
  \<open>RethinkModule\<close> returns the error response, and neither cache tier nor the list of
  scheduled tasks has changed.
\<close>

theorem undersized_upstream_answer_fails:
  "fst (resolveFromCache e prm w) = Inr None \<and> length (arrayBuffer r) < minDNSPacketSize e \<longrightarrow>
     fst (resolveRequest e prm (Resolves (Some r)) w)
       = Inl (if ok r then Error ''inadequate response from upstream''
              else HttpErr (status r) (statusText r))
   \<and> fst (RethinkModule e prm (Resolves (Some r)) w)
       = ErrResponse ''dnsResolver''
           (if ok r then Error ''inadequate response from upstream''
            else HttpErr (status r) (statusText r))
   \<and> dnsResCache (snd (resolveRequest e prm (Resolves (Some r)) w)) = dnsResCache w
   \<and> httpCache (snd (resolveRequest e prm (Resolves (Some r)) w)) = httpCache w
   \<and> waitUntil (snd (resolveRequest e prm (Resolves (Some r)) w)) = waitUntil w"
proof
  assume a: "fst (resolveFromCache e prm w) = Inr None \<and> length (arrayBuffer r) < minDNSPacketSize e"
  let ?err = "if ok r then Error ''inadequate response from upstream''
              else HttpErr (status r) (statusText r)"
  from a obtain w1 where c: "resolveFromCache e prm w = (Inr None, w1)"
    by (cases "resolveFromCache e prm w") auto
  from a have "sameButTicks w (snd (resolveFromCache e prm w))"
    by (simp add: resolveFromCache_miss_frame)
  with c have fr: "sameButTicks w w1"
    by simp
  from a have u: "upstreamQuery e prm (Resolves (Some r)) w1 = (Inl ?err, w1)"
    by (simp add: upstreamQuery_undersized)
  have rr: "resolveRequest e prm (Resolves (Some r)) w = (Inl ?err, w1)"
    using c u by (simp add: resolveRequest_afterCacheMiss afterCacheMiss_def)
  show "fst (resolveRequest e prm (Resolves (Some r)) w) = Inl ?err
   \<and> fst (RethinkModule e prm (Resolves (Some r)) w) = ErrResponse ''dnsResolver'' ?err
   \<and> dnsResCache (snd (resolveRequest e prm (Resolves (Some r)) w)) = dnsResCache w
   \<and> httpCache (snd (resolveRequest e prm (Resolves (Some r)) w)) = httpCache w
   \<and> waitUntil (snd (resolveRequest e prm (Resolves (Some r)) w)) = waitUntil w"
    using rr fr by (simp add: RethinkModule_def sameButTicks_def)
qed

theorem undersized_upstream_answer_fails_witness:
  "fst (resolveFromCache exEnv exParam exEdgeWorld) = Inr None
   \<and> length [0, 7 :: nat] < minDNSPacketSize exEnv
   \<and> fst (resolveRequest exEnv exParam (exUpOf [0, 7]) exEdgeWorld)
       = Inl (Error ''inadequate response from upstream'')
   \<and> fst (RethinkModule exEnv exParam (exUpOf [0, 7]) exEdgeWorld)
       = ErrResponse ''dnsResolver'' (Error ''inadequate response from upstream'')
   \<and> dnsResCache (snd (resolveRequest exEnv exParam (exUpOf [0, 7]) exEdgeWorld)) = Map.empty
   \<and> httpCache (snd (resolveRequest exEnv exParam (exUpOf [0, 7]) exEdgeWorld)) = Some Map.empty
   \<and> waitUntil (snd (resolveRequest exEnv exParam (exUpOf [0, 7]) exEdgeWorld)) = []"
proof -
  let ?r = "\<lparr>ok = True, status = 200, statusText = ''OK'', arrayBuffer = [0, 7]\<rparr>"
  have h1: "fst (resolveFromCache exEnv exParam exEdgeWorld) = Inr None"
    by (simp add: ex_resolveFromCache_edge)
  have h2: "length (arrayBuffer ?r) < minDNSPacketSize exEnv"
    by (simp add: exEnv_def)
  have h3: "dnsResCache exEdgeWorld = Map.empty \<and> httpCache exEdgeWorld = Some Map.empty
            \<and> waitUntil exEdgeWorld = []"
    by (simp add: exEdgeWorld_def exWorld_def)
  show ?thesis
    using undersized_upstream_answer_fails
        [where e = exEnv and prm = exParam and w = exEdgeWorld and r = ?r] h1 h2 h3
    by (simp add: exUpOf_def)
qed

text \<open>
  Claim C4. \<open>updateLocalCacheIfNeeded\<close> and \<open>updateHttpCacheIfNeeded\<close> leave the world
  as it is when there is no cache response or when its \<open>ttlEndTime\<close> is zero or
  missing. What \<open>updateLocalCacheIfNeeded\<close> stores otherwise is the record of the two
  fields \<open>dnsPacket\<close> and \<open>ttlEndTime\<close>, without the decoded packet. Over a whole
  \<open>resolveRequest\<close>, an entry of the local cache that was not there before has a
  \<open>ttlEndTime\<close> that is neither zero nor missing.
\<close>

theorem no_expiry_never_written:
  "updateLocalCacheIfNeeded k None w = w
   \<and> updateHttpCacheIfNeeded e prm k None w = (None, w)
   \<and> (noExpiry cr \<longrightarrow>
        updateLocalCacheIfNeeded k (Some cr) w = w
        \<and> updateHttpCacheIfNeeded e prm k (Some cr) w = (None, w))
   \<and> updateLocalCacheIfNeeded None v w = w
   \<and> updateLocalCacheIfNeeded (Some key) (Some cr) w
       = (if key = [] then w
          else if noExpiry cr then w
          else w\<lparr>dnsResCache := (dnsResCache w)
                   (key \<mapsto> \<lparr>dnsPacket = dnsPacket cr, ttlEndTime = ttlEndTime cr\<rparr>)\<rparr>)
   \<and> (dnsResCache (snd (resolveRequest e prm up w)) k' = Some ent \<longrightarrow>
        dnsResCache w k' = Some ent \<or> \<not> noExpiry ent)"
proof -
  have "addsOnlyExpiring w (snd (resolveRequest e prm up w))"
    by (rule addsOnlyExpiring_resolveRequest)
  then have "dnsResCache (snd (resolveRequest e prm up w)) k' = Some ent \<longrightarrow>
        dnsResCache w k' = Some ent \<or> \<not> noExpiry ent"
    by (simp add: addsOnlyExpiring_def)
  then show ?thesis
    by (auto simp: updateLocalCacheIfNeeded_def updateHttpCacheIfNeeded_def noExpiry_def
        LocalCache_Put_def Let_def split: option.splits)
qed

theorem no_expiry_never_written_witness:
  "noExpiry (exFresh 0)
   \<and> updateLocalCacheIfNeeded (Some exKey) (Some (exFresh 0)) exEdgeWorld = exEdgeWorld
   \<and> updateHttpCacheIfNeeded exEnv exParam (Some exKey) (Some (exFresh 0)) exEdgeWorld
       = (None, exEdgeWorld)
   \<and> updateLocalCacheIfNeeded (Some exKey) (Some (exFresh 331000)) exEdgeWorld
       = exEdgeWorld\<lparr>dnsResCache :=
           [exKey \<mapsto> \<lparr>dnsPacket = exBytes 329, ttlEndTime = Some 331000\<rparr>]\<rparr>
   \<and> dnsResCache (snd (resolveRequest exEnv exParam (exUpOf (exBytes 0)) exEdgeWorld))
       = Map.empty
   \<and> dnsResCache (snd (resolveRequest exEnv exParam (exUpOf (exBytes 300)) exEdgeWorld)) exKey
       = Some \<lparr>dnsPacket = exBytes 329, ttlEndTime = Some 331000\<rparr>
   \<and> dnsResCache exEdgeWorld exKey = None
   \<and> \<not> noExpiry \<lparr>dnsPacket = exBytes 329, ttlEndTime = Some 331000\<rparr>"
proof -
  have h1: "noExpiry (exFresh 0)"
    by (simp add: noExpiry_def exFresh_def)
  have h2: "\<not> noExpiry (exFresh 331000)"
    by (simp add: noExpiry_def exFresh_def)
  have h3: "exKey \<noteq> []"
    by (simp add: exKey_def)
  have h4: "dnsResCache exEdgeWorld = Map.empty"
    by (simp add: exEdgeWorld_def exWorld_def)
  have h5: "dnsPacket (exFresh 331000) = exBytes 329 \<and> ttlEndTime (exFresh 331000) = Some 331000"
    by (simp add: exFresh_def)
  have h6: "dnsResCache (snd (resolveRequest exEnv exParam (exUpOf (exBytes 300)) exEdgeWorld))
              exKey = Some \<lparr>dnsPacket = exBytes 329, ttlEndTime = Some 331000\<rparr>"
    by (simp add: ex_resolveRequest_fresh)
  have h7: "dnsResCache (snd (resolveRequest exEnv exParam (exUpOf (exBytes 0)) exEdgeWorld))
            = Map.empty"
    by (simp add: ex_resolveRequest_nx tick_def h4)
  show ?thesis
    using no_expiry_never_written
        [where k = "Some exKey" and cr = "exFresh 0" and w = exEdgeWorld and e = exEnv
           and prm = exParam]
      no_expiry_never_written
        [where key = exKey and cr = "exFresh 331000" and w = exEdgeWorld and e = exEnv
           and prm = exParam and up = "exUpOf (exBytes 300)" and k' = exKey
           and ent = "\<lparr>dnsPacket = exBytes 329, ttlEndTime = Some 331000\<rparr>"]
      h1 h2 h3 h4 h5 h6 h7
    by simp
qed

text \<open>
  Claim C2 fails on the code. With the edge cache present, a key and a non-zero
  \<open>ttlEndTime\<close>, \<open>updateHttpCacheIfNeeded\<close> throws: \<open>httpCacheHeaders\<close> calls
  \<open>this.httpCacheMetadata\<close>, and \<open>httpCacheMetadata\<close> is a function of the module, not
  a property of the resolver. No response is built and nothing is handed to
  \<open>event.waitUntil\<close>, neither by \<open>updateHttpCacheIfNeeded\<close> nor over a whole
  \<open>resolveRequest\<close>.
\<close>

theorem edge_cache_put_never_scheduled:
  "(httpCache w = Some hc \<and> key \<noteq> [] \<and> ttlEndTime cr = Some t \<and> t \<noteq> 0 \<longrightarrow>
      updateHttpCacheIfNeeded e prm (Some key) (Some cr) w
        = (Some (TypeError ''this.httpCacheMetadata is not a function''), w))
   \<and> waitUntil (snd (updateHttpCacheIfNeeded e prm k v w)) = waitUntil w
   \<and> waitUntil (snd (resolveRequest e prm up w)) = waitUntil w"
proof -
  have "waitUntil (snd (resolveRequest e prm up w)) = waitUntil w"
    by (rule waitUntil_resolveRequest)
  then show ?thesis
    by (simp add: updateHttpCacheIfNeeded_def httpCacheHeaders_fails Let_def
        split: option.splits)
qed

theorem edge_cache_put_never_scheduled_witness:
  "httpCache exEdgeWorld = Some Map.empty
   \<and> exKey \<noteq> []
   \<and> ttlEndTime (exFresh 331000) = Some 331000
   \<and> httpCacheMetadata (exFresh 331000) (blocklistFilter exParam)
       = Inr \<lparr>meta_ttlEndTime = Some 331000, meta_bodyUsed = True, meta_blocklistInfo = []\<rparr>
   \<and> updateHttpCacheIfNeeded exEnv exParam (Some exKey) (Some (exFresh 331000)) exEdgeWorld
       = (Some (TypeError ''this.httpCacheMetadata is not a function''), exEdgeWorld)
   \<and> fst (resolveRequest exEnv exParam (exUpOf (exBytes 300)) exEdgeWorld)
       = Inr \<lparr>responseBodyBuffer = exBytes 329,
              responseDecodedDnsPacket = exAnswer\<lparr>answers := [\<lparr>atype = ''A'', ttl = Some 329\<rparr>]\<rparr>\<rparr>
   \<and> dnsResCache (snd (resolveRequest exEnv exParam (exUpOf (exBytes 300)) exEdgeWorld)) exKey
       = Some \<lparr>dnsPacket = exBytes 329, ttlEndTime = Some 331000\<rparr>
   \<and> waitUntil (snd (resolveRequest exEnv exParam (exUpOf (exBytes 300)) exEdgeWorld)) = []"
proof -
  have h1: "httpCache exEdgeWorld = Some Map.empty \<and> waitUntil exEdgeWorld = []"
    by (simp add: exEdgeWorld_def exWorld_def)
  have h2: "exKey \<noteq> []"
    by (simp add: exKey_def)
  have h3: "ttlEndTime (exFresh 331000) = Some 331000"
    by (simp add: exFresh_def)
  have h4: "httpCacheMetadata (exFresh 331000) (blocklistFilter exParam)
       = Inr \<lparr>meta_ttlEndTime = Some 331000, meta_bodyUsed = True, meta_blocklistInfo = []\<rparr>"
    by (simp add: httpCacheMetadata_def exFresh_def exAnswer_def exParam_def)
  show ?thesis
    using edge_cache_put_never_scheduled
        [where w = exEdgeWorld and hc = Map.empty and key = exKey and cr = "exFresh 331000"
           and t = 331000 and e = exEnv and prm = exParam and up = "exUpOf (exBytes 300)"]
      h1 h2 h3 h4 ex_resolveRequest_fresh
    by simp
qed

end
